theory Spec2Isabelle
  imports Complex_Main "HOL-Library.Log_Nat"
begin

text \<open>
  A model of the analysis core of ClauseForge-AI: the document comparison
  (\<^verbatim>\<open>services/document_comparison.py\<close>, \<^verbatim>\<open>repositories/document_comparison.py\<close>), the
  retrieval pipeline (\<^verbatim>\<open>services/rag.py\<close>, \<^verbatim>\<open>repositories/document_chunk.py\<close>) and the
  compliance engine (\<^verbatim>\<open>services/compliance.py\<close>).  Functions keep the names of the source
  without the leading underscore; a raised exception is the left summand of the result;
  what the code reads from the database, the clock, the embedding service, the language
  model and the libraries is an argument or a field of an environment record.
\<close>

section \<open>Python values\<close>

subsection \<open>Binary64 floating point\<close>

text \<open>
  A Python \<^verbatim>\<open>float\<close> is an IEEE 754 binary64 number.  The finite ones are rationals, and
  every arithmetic operation returns the exact result rounded to the nearest representable
  number, ties going to the even significand.  \<open>b64\<close> is that rounding; a decimal literal
  \<^verbatim>\<open>0.7\<close> of the source is \<open>b64 (7/10)\<close>.  Magnitudes of \<open>2 ^ 1024\<close> and more (which
  Python turns into \<^verbatim>\<open>inf\<close>) are not modelled: the confidences, risk scores and
  similarities below are far from them.
\<close>

definition pow2 :: "int \<Rightarrow> rat" where
  "pow2 e = (if 0 \<le> e then 2 ^ nat e else 1 / 2 ^ nat (- e))"

definition round_half_even :: "rat \<Rightarrow> int" where
  "round_half_even x =
     (let f = \<lfloor>x\<rfloor>; d = x - of_int f
      in if d < 1 / 2 then f else if 1 / 2 < d then f + 1 else if even f then f else f + 1)"

definition ilog2 :: "rat \<Rightarrow> int" where
  \<comment> \<open>for \<open>0 < x\<close>: the \<open>e\<close> with \<open>2 ^ e \<le> x < 2 ^ (e + 1)\<close>\<close>
  "ilog2 x =
     (case quotient_of x of (p, q) \<Rightarrow>
        (let k = bitlen p - bitlen q in if pow2 k \<le> x then k else k - 1))"

definition b64 :: "rat \<Rightarrow> rat" where
  "b64 x =
     (if x = 0 then 0
      else (let e = max (ilog2 \<bar>x\<bar>) (- 1022); ulp = pow2 (e - 52)
            in of_int (round_half_even (x / ulp)) * ulp))"

definition fadd :: "rat \<Rightarrow> rat \<Rightarrow> rat" where
  "fadd x y = b64 (x + y)"

definition fsub :: "rat \<Rightarrow> rat \<Rightarrow> rat" where
  "fsub x y = b64 (x - y)"

definition fmul :: "rat \<Rightarrow> rat \<Rightarrow> rat" where
  "fmul x y = b64 (x * y)"

text \<open>Division by zero raises \<^verbatim>\<open>ZeroDivisionError\<close>; the callers below guard against it.\<close>

definition fdiv :: "rat \<Rightarrow> rat \<Rightarrow> rat" where
  "fdiv x y = b64 (x / y)"

text \<open>
  \<^verbatim>\<open>sum(xs)\<close> starts from the integer 0 and adds from left to right, rounding after every
  addition (CPython before 3.12; later versions compensate the rounding errors of the
  partial sums).
\<close>

definition py_sum :: "rat list \<Rightarrow> rat" where
  "py_sum xs = foldl fadd 0 xs"

text \<open>\<^verbatim>\<open>int(x)\<close> truncates towards zero.\<close>

definition py_int :: "rat \<Rightarrow> int" where
  "py_int x = (if 0 \<le> x then \<lfloor>x\<rfloor> else \<lceil>x\<rceil>)"

subsection \<open>Strings\<close>

text \<open>
  A character is a code point below 256.  \<^verbatim>\<open>str.lower\<close> moves the capital letters of
  ASCII and of Latin-1 by 32; \<^verbatim>\<open>str.strip\<close> removes the white space of that range.
\<close>

definition py_lower_char :: "char \<Rightarrow> char" where
  "py_lower_char c =
     (let n = (of_char c :: nat)
      in if (65 \<le> n \<and> n \<le> 90) \<or> (192 \<le> n \<and> n \<le> 214) \<or> (216 \<le> n \<and> n \<le> 222)
         then char_of (n + 32) else c)"

definition py_lower :: "string \<Rightarrow> string" where
  "py_lower s = map py_lower_char s"

definition py_isspace :: "char \<Rightarrow> bool" where
  "py_isspace c =
     (let n = (of_char c :: nat)
      in (9 \<le> n \<and> n \<le> 13) \<or> (28 \<le> n \<and> n \<le> 32) \<or> n = 133 \<or> n = 160)"

definition py_strip :: "string \<Rightarrow> string" where
  "py_strip s = rev (dropWhile py_isspace (rev (dropWhile py_isspace s)))"

definition startswith :: "string \<Rightarrow> string \<Rightarrow> bool" where
  "startswith s p = (take (length p) s = p)"

text \<open>\<^verbatim>\<open>k in s\<close> on strings: \<open>k\<close> occurs in \<open>s\<close> as a contiguous piece.\<close>

fun py_in :: "string \<Rightarrow> string \<Rightarrow> bool" where
  "py_in k [] = (k = [])"
| "py_in k (c # cs) = (startswith (c # cs) k \<or> py_in k cs)"

fun py_join :: "string \<Rightarrow> string list \<Rightarrow> string" where
  "py_join sep [] = []"
| "py_join sep [x] = x"
| "py_join sep (x # y # ys) = x @ sep @ py_join sep (y # ys)"

text \<open>\<^verbatim>\<open>s.split(sep)\<close> for a separator of one character.\<close>

fun py_split :: "char \<Rightarrow> string \<Rightarrow> string list" where
  "py_split sep [] = [[]]"
| "py_split sep (c # cs) =
     (if c = sep then [] # py_split sep cs
      else (case py_split sep cs of [] \<Rightarrow> [[c]] | w # ws \<Rightarrow> (c # w) # ws))"

text \<open>\<^verbatim>\<open>s[a:b]\<close> and \<^verbatim>\<open>s[:b]\<close>: a negative bound counts from the end.\<close>

definition py_index :: "nat \<Rightarrow> int \<Rightarrow> nat" where
  "py_index n i = (if 0 \<le> i then min (nat i) n else n - nat (- i))"

definition py_slice :: "'a list \<Rightarrow> int \<Rightarrow> int \<Rightarrow> 'a list" where
  "py_slice xs a b = (let i = py_index (length xs) a; j = py_index (length xs) b in drop i (take j xs))"

definition py_slice_to :: "'a list \<Rightarrow> int \<Rightarrow> 'a list" where
  "py_slice_to xs b = take (py_index (length xs) b) xs"

text \<open>\<^verbatim>\<open>str(n)\<close> for integers, as the f-strings of the source format them.\<close>

definition digit_char :: "nat \<Rightarrow> char" where
  "digit_char d = char_of (48 + d)"

function str_nat :: "nat \<Rightarrow> string" where
  "str_nat n = (if n < 10 then [digit_char n] else str_nat (n div 10) @ [digit_char (n mod 10)])"
  by pat_completeness auto
termination
  by (relation "measure id") auto

definition str_int :: "int \<Rightarrow> string" where
  "str_int i = (if i < 0 then CHR ''-'' # str_nat (nat (- i)) else str_nat (nat i))"

subsection \<open>Exceptions and JSON\<close>

datatype py_error =
    ValueError string
  | TypeError
  | KeyError string
  | AttributeError
  | IndexError
  | MultipleResultsFound
  | ReError
  | ApiError string

datatype json =
    JNull
  | JBool bool
  | JInt int
  | JFloat rat
  | JStr string
  | JArr "json list"
  | JObj "(string \<times> json) list"

type_synonym uuid = string

section \<open>Document comparison\<close>

datatype ChangeType = ADDED | REMOVED | MODIFIED | UNCHANGED

record TextChange =
  change_type :: ChangeType
  text' :: string
  line_number :: "int option"
  page_number :: "int option"
  confidence :: rat

record ClauseChange =
  change_type :: ChangeType
  clause_type :: string
  old_text :: "string option"
  new_text :: "string option"
  risk_impact :: string
  page_number :: "int option"

record ComparisonResult =
  document_a_id :: uuid
  document_b_id :: uuid
  text_changes :: "TextChange list"
  clause_changes :: "ClauseChange list"
  similarity_score :: rat
  risk_assessment :: "(string \<times> json) list"
  summary :: string

text \<open>The rows of the tables \<^verbatim>\<open>document_chunks\<close> and \<^verbatim>\<open>documents\<close>, as far as they are read.\<close>

record DocumentChunk =
  id :: uuid
  org_id :: string
  document_id :: uuid
  chunk_no :: int
  text' :: string
  page :: "int option"
  embedding :: "rat list option"

record Document =
  id :: uuid
  org_id :: string
  title :: string
  chunks :: "DocumentChunk list"

text \<open>
  A row of \<^verbatim>\<open>document_comparisons\<close>.  The JSON column \<^verbatim>\<open>comparison_result\<close> holds what
  \<^verbatim>\<open>_store_comparison_result\<close> writes; a key that may be absent is an option, and the
  column itself may be NULL.
\<close>

record StoredTextChange =
  change_type :: string
  text' :: string
  line_number :: "int option"
  page_number :: "int option"
  confidence :: "rat option"

record StoredClauseChange =
  change_type :: string
  clause_type :: string
  old_text :: "string option"
  new_text :: "string option"
  risk_impact :: "string option"
  page_number :: "int option"

record StoredComparisonData =
  text_changes :: "StoredTextChange list option"
  clause_changes :: "StoredClauseChange list option"
  similarity_score :: "rat option"

record DocumentComparison =
  id :: uuid
  org_id :: string
  document_a_id :: uuid
  document_b_id :: uuid
  comparison_result :: "StoredComparisonData option"
  risk_assessment :: "(string \<times> json) list option"
  summary :: "string option"
  created_by :: uuid
  created_at :: int

subsection \<open>The repository\<close>

text \<open>
  \<^verbatim>\<open>set_org_context\<close> sets the organisation of the session, and the row level security policy
  of the table shows the rows of that organisation only.
\<close>

definition visible_rows :: "DocumentComparison list \<Rightarrow> string \<Rightarrow> DocumentComparison list" where
  "visible_rows table org = filter (\<lambda>r. DocumentComparison.org_id r = org) table"

text \<open>
  \<^verbatim>\<open>scalar_one_or_none\<close> returns the only row of a result, \<^verbatim>\<open>None\<close> for an empty result, and
  raises \<^verbatim>\<open>MultipleResultsFound\<close> otherwise.
\<close>

fun scalar_one_or_none :: "'a list \<Rightarrow> py_error + 'a option" where
  "scalar_one_or_none [] = Inr None"
| "scalar_one_or_none [r] = Inr (Some r)"
| "scalar_one_or_none (r # r' # rs) = Inl MultipleResultsFound"

definition get_by_documents ::
  "DocumentComparison list \<Rightarrow> uuid \<Rightarrow> uuid \<Rightarrow> string \<Rightarrow> py_error + DocumentComparison option" where
  "get_by_documents table a_id b_id org =
     scalar_one_or_none
       (rev (sort_key DocumentComparison.created_at
         (filter
           (\<lambda>r. (DocumentComparison.document_a_id r = a_id \<and>
                 DocumentComparison.document_b_id r = b_id) \<or>
                (DocumentComparison.document_a_id r = b_id \<and>
                 DocumentComparison.document_b_id r = a_id))
           (visible_rows table org))))"

subsection \<open>The service\<close>

definition combine_chunks_to_text :: "DocumentChunk list \<Rightarrow> string" where
  "combine_chunks_to_text cs =
     (if cs = [] then ''''
      else py_join [CHR 10] (map DocumentChunk.text' (sort_key chunk_no cs)))"

text \<open>
  The loop over the lines of \<^verbatim>\<open>difflib.unified_diff\<close>: headers are skipped, every other line
  is counted, and a line that starts with a sign becomes a change.
\<close>

fun diff_lines_to_changes :: "int \<Rightarrow> string list \<Rightarrow> TextChange list" where
  "diff_lines_to_changes line_num [] = []"
| "diff_lines_to_changes line_num (line # rest) =
     (if startswith line ''+++'' \<or> startswith line ''---'' \<or> startswith line ''@@''
      then diff_lines_to_changes line_num rest
      else if startswith line ''+''
      then \<lparr>TextChange.change_type = ADDED, text' = drop 1 line, line_number = Some (line_num + 1),
            page_number = None, confidence = b64 1\<rparr> # diff_lines_to_changes (line_num + 1) rest
      else if startswith line ''-''
      then \<lparr>TextChange.change_type = REMOVED, text' = drop 1 line, line_number = Some (line_num + 1),
            page_number = None, confidence = b64 1\<rparr> # diff_lines_to_changes (line_num + 1) rest
      else diff_lines_to_changes (line_num + 1) rest)"

text \<open>\<open>unified_diff\<close> stands for \<^verbatim>\<open>difflib.unified_diff(a, b, lineterm='')\<close>.\<close>

definition compare_text_content ::
  "(string list \<Rightarrow> string list \<Rightarrow> string list) \<Rightarrow> Document \<Rightarrow> Document \<Rightarrow> TextChange list" where
  "compare_text_content diff doc_a doc_b =
     (let text_a = combine_chunks_to_text (chunks doc_a);
          text_b = combine_chunks_to_text (chunks doc_b);
          lines_a = py_split (CHR 10) text_a;
          lines_b = py_split (CHR 10) text_b
      in diff_lines_to_changes 0 (diff lines_a lines_b))"

definition calculate_similarity_score :: "TextChange list \<Rightarrow> rat" where
  "calculate_similarity_score changes =
     (if changes = [] then b64 1
      else (let total_changes = length changes
            in if total_changes < 10 then b64 (9 / 10)
               else if total_changes < 50 then b64 (7 / 10)
               else if total_changes < 100 then b64 (5 / 10)
               else b64 (3 / 10)))"

definition parse_change_type :: "string \<Rightarrow> py_error + ChangeType" where
  "parse_change_type v =
     (if v = ''added'' then Inr ADDED
      else if v = ''removed'' then Inr REMOVED
      else if v = ''modified'' then Inr MODIFIED
      else if v = ''unchanged'' then Inr UNCHANGED
      else Inl (ValueError v))"

fun parse_text_changes :: "StoredTextChange list \<Rightarrow> py_error + TextChange list" where
  "parse_text_changes [] = Inr []"
| "parse_text_changes (c # cs) =
     (case parse_change_type (StoredTextChange.change_type c) of
        Inl e \<Rightarrow> Inl e
      | Inr t \<Rightarrow>
          (case parse_text_changes cs of
             Inl e \<Rightarrow> Inl e
           | Inr rest \<Rightarrow>
               Inr (\<lparr>TextChange.change_type = t, text' = StoredTextChange.text' c,
                     line_number = StoredTextChange.line_number c,
                     page_number = StoredTextChange.page_number c,
                     confidence = (case StoredTextChange.confidence c of None \<Rightarrow> b64 1 | Some x \<Rightarrow> x)\<rparr>
                    # rest)))"

fun parse_clause_changes :: "StoredClauseChange list \<Rightarrow> py_error + ClauseChange list" where
  "parse_clause_changes [] = Inr []"
| "parse_clause_changes (c # cs) =
     (case parse_change_type (StoredClauseChange.change_type c) of
        Inl e \<Rightarrow> Inl e
      | Inr t \<Rightarrow>
          (case parse_clause_changes cs of
             Inl e \<Rightarrow> Inl e
           | Inr rest \<Rightarrow>
               Inr (\<lparr>ClauseChange.change_type = t,
                     clause_type = StoredClauseChange.clause_type c,
                     old_text = StoredClauseChange.old_text c,
                     new_text = StoredClauseChange.new_text c,
                     risk_impact = (case StoredClauseChange.risk_impact c of None \<Rightarrow> ''low'' | Some x \<Rightarrow> x),
                     page_number = StoredClauseChange.page_number c\<rparr>
                    # rest)))"

definition parse_stored_comparison :: "DocumentComparison \<Rightarrow> py_error + ComparisonResult" where
  "parse_stored_comparison stored_comparison =
     (case DocumentComparison.comparison_result stored_comparison of
        None \<Rightarrow> Inl AttributeError
      | Some comparison_data \<Rightarrow>
          (case parse_text_changes
                  (case StoredComparisonData.text_changes comparison_data of None \<Rightarrow> [] | Some l \<Rightarrow> l) of
             Inl e \<Rightarrow> Inl e
           | Inr tcs \<Rightarrow>
               (case parse_clause_changes
                       (case StoredComparisonData.clause_changes comparison_data of None \<Rightarrow> [] | Some l \<Rightarrow> l) of
                  Inl e \<Rightarrow> Inl e
                | Inr ccs \<Rightarrow>
                    Inr \<lparr>ComparisonResult.document_a_id = DocumentComparison.document_a_id stored_comparison,
                         document_b_id = DocumentComparison.document_b_id stored_comparison,
                         text_changes = tcs,
                         clause_changes = ccs,
                         similarity_score =
                           (case StoredComparisonData.similarity_score comparison_data of
                              None \<Rightarrow> 0 | Some x \<Rightarrow> x),
                         risk_assessment =
                           (case DocumentComparison.risk_assessment stored_comparison of
                              None \<Rightarrow> [] | Some x \<Rightarrow> x),
                         summary =
                           (case DocumentComparison.summary stored_comparison of
                              None \<Rightarrow> '''' | Some x \<Rightarrow> x)\<rparr>)))"

text \<open>
  \<^verbatim>\<open>_store_comparison_result\<close> builds the row, converting the organisation with
  \<^verbatim>\<open>UUID(org_id)\<close> (\<open>uuid_ok\<close> says whether that constructor accepts the string), and
  calls \<^verbatim>\<open>self.comparison_repo.create(comparison_data, org_id)\<close>.  The repository's
  \<^verbatim>\<open>create(self, **kwargs)\<close> takes no positional argument, so the call raises
  \<^verbatim>\<open>TypeError\<close> and the session never sees the row: the function has no normal return, and
  its model is the exception it ends with.
\<close>

record compare_env =
  get_with_chunks :: "uuid \<Rightarrow> string \<Rightarrow> Document option"
  unified_diff :: "string list \<Rightarrow> string list \<Rightarrow> string list"
  uuid_ok :: "string \<Rightarrow> bool"

definition store_comparison_result :: "compare_env \<Rightarrow> string \<Rightarrow> py_error" where
  "store_comparison_result env org = (if uuid_ok env org then TypeError else ValueError org)"

text \<open>
  \<^verbatim>\<open>compare_documents\<close> returns its result together with the table.  When the lookup finds
  a row, the row is parsed and returned.  Otherwise both documents are read, the text
  changes and the score are computed (and, from other tables, the clause changes, the risk
  assessment and the summary, none of which writes anything), and the result is handed to
  \<^verbatim>\<open>_store_comparison_result\<close>, whose exception ends the call.
\<close>

definition compare_documents ::
  "compare_env \<Rightarrow> DocumentComparison list \<Rightarrow> uuid \<Rightarrow> uuid \<Rightarrow> string \<Rightarrow> uuid
     \<Rightarrow> (py_error + ComparisonResult) \<times> DocumentComparison list" where
  "compare_documents env table a_id b_id org user =
     (case get_by_documents table a_id b_id org of
        Inl e \<Rightarrow> (Inl e, table)
      | Inr (Some existing_comparison) \<Rightarrow> (parse_stored_comparison existing_comparison, table)
      | Inr None \<Rightarrow>
          (case (get_with_chunks env a_id org, get_with_chunks env b_id org) of
             (Some doc_a, Some doc_b) \<Rightarrow>
               (let changes = compare_text_content (unified_diff env) doc_a doc_b;
                    score = calculate_similarity_score changes
                in (Inl (store_comparison_result env org), table))
           | _ \<Rightarrow> (Inl (ValueError ''One or both documents not found''), table)))"

section \<open>Retrieval-augmented generation\<close>

text \<open>
  Embeddings and similarities are binary64 numbers.  The similarity of two vectors is
  computed by pgvector in the database and by scikit-learn in the reranking; both are
  fields of the environment, and what the code does with their results is modelled in
  binary64 arithmetic.
\<close>

record SearchResult =
  chunk :: DocumentChunk
  similarity_score :: rat
  document :: "Document option"
  context_chunks :: "DocumentChunk list option"

record Citation =
  document_id :: uuid
  document_title :: string
  page :: "int option"
  chunk_id :: uuid
  text' :: string
  relevance_score :: rat

record RAGResponse =
  answer :: string
  citations :: "Citation list"
  confidence :: rat
  model_used :: string
  processing_time :: rat
  context_used :: string

text \<open>
  What a query reads from outside: the two tables, the embedding service, the distance
  operator \<^verbatim>\<open><=>\<close> of pgvector, \<^verbatim>\<open>cosine_similarity\<close> of scikit-learn, the Anthropic
  client (\<open>messages_create model system user\<close> returns the texts of the content blocks of
  the answer), the clock at the start and at the end of the query, and \<^verbatim>\<open>str(e)\<close> for an
  exception.
\<close>

record rag_env =
  chunk_table :: "DocumentChunk list"
  document_table :: "Document list"
  generate_query_embedding :: "string \<Rightarrow> py_error + rat list"
  cosine_distance :: "rat list \<Rightarrow> rat list \<Rightarrow> rat"
  cosine_similarity :: "rat list list \<Rightarrow> rat list list \<Rightarrow> py_error + rat list list"
  messages_create :: "string \<Rightarrow> string \<Rightarrow> string \<Rightarrow> py_error + string list"
  time_start :: rat
  time_end :: rat
  str_exc :: "py_error \<Rightarrow> string"

subsection \<open>Repositories\<close>

text \<open>A stable sort with \<^verbatim>\<open>reverse=True\<close>, and \<^verbatim>\<open>ORDER BY ... DESC\<close>.\<close>

definition sort_desc :: "('a \<Rightarrow> 'k::linorder) \<Rightarrow> 'a list \<Rightarrow> 'a list" where
  "sort_desc key xs = rev (sort_key key (rev xs))"

text \<open>The expression \<^verbatim>\<open>1 - (embedding <=> :query_embedding)\<close> of the SQL query.\<close>

definition chunk_similarity :: "rag_env \<Rightarrow> rat list \<Rightarrow> DocumentChunk \<Rightarrow> rat" where
  "chunk_similarity env q c = fsub 1 (cosine_distance env (the (embedding c)) q)"

text \<open>
  \<^verbatim>\<open>similarity_search\<close>: the rows of the organisation whose similarity to the query is above
  the threshold (a row without embedding has no similarity), of the given documents if a
  non-empty list of them is given, by falling similarity, at most \<open>limit\<close> of them.  The
  database rejects a negative \<^verbatim>\<open>LIMIT\<close>.
\<close>

definition similarity_search ::
  "rag_env \<Rightarrow> rat list \<Rightarrow> string \<Rightarrow> uuid list option \<Rightarrow> int \<Rightarrow> rat
     \<Rightarrow> py_error + (DocumentChunk \<times> rat) list" where
  "similarity_search env q org document_ids limit threshold =
     (if limit < 0 then Inl (ValueError ''LIMIT must not be negative'')
      else Inr (take (nat limit)
        (sort_desc snd
          (map (\<lambda>c. (c, chunk_similarity env q c))
            (filter
              (\<lambda>c. DocumentChunk.org_id c = org \<and> embedding c \<noteq> None \<and>
                   chunk_similarity env q c > threshold \<and>
                   (case document_ids of
                      None \<Rightarrow> True
                    | Some ids \<Rightarrow> ids = [] \<or> DocumentChunk.document_id c \<in> set ids))
              (chunk_table env))))))"

definition get_document_by_id :: "rag_env \<Rightarrow> uuid \<Rightarrow> string \<Rightarrow> Document option" where
  "get_document_by_id env d org =
     find (\<lambda>r. Document.id r = d \<and> Document.org_id r = org) (document_table env)"

definition get_nearby_chunks :: "rag_env \<Rightarrow> uuid \<Rightarrow> string \<Rightarrow> int \<Rightarrow> DocumentChunk list" where
  "get_nearby_chunks env c org context_size =
     (case find (\<lambda>r. DocumentChunk.id r = c \<and> DocumentChunk.org_id r = org) (chunk_table env) of
        None \<Rightarrow> []
      | Some target_chunk \<Rightarrow>
          sort_key chunk_no
            (filter
              (\<lambda>r. DocumentChunk.org_id r = org \<and>
                   DocumentChunk.document_id r = DocumentChunk.document_id target_chunk \<and>
                   chunk_no r \<ge> chunk_no target_chunk - context_size \<and>
                   chunk_no r \<le> chunk_no target_chunk + context_size)
              (chunk_table env)))"

subsection \<open>Reranking\<close>

text \<open>
  \<^verbatim>\<open>sklearn.metrics.pairwise.cosine_similarity\<close> takes two matrices, here lists of rows, and
  returns the matrix of the similarities of the rows of the first to the rows of the
  second, or raises \<^verbatim>\<open>ValueError\<close> (when the rows of the two have different lengths, for
  instance).  It is the field \<open>cosine_similarity\<close> of the environment.  What
  \<^verbatim>\<open>_apply_mmr_reranking\<close> does with the numbers that the library returns is binary64
  arithmetic.
\<close>

text \<open>\<^verbatim>\<open>xs[0]\<close>, and \<^verbatim>\<open>np.max\<close> of a row.\<close>

definition py_first :: "'a list \<Rightarrow> py_error + 'a" where
  "py_first xs = (case xs of [] \<Rightarrow> Inl IndexError | x # rest \<Rightarrow> Inr x)"

fun np_max :: "rat list \<Rightarrow> py_error + rat" where
  "np_max [] = Inl (ValueError ''zero-size array to reduction operation maximum which has no identity'')"
| "np_max (x # xs) = Inr (foldl max x xs)"

text \<open>\<^verbatim>\<open>max(xs, key=...)\<close> returns the first of the elements with the largest key.\<close>

fun py_max_from :: "('a \<Rightarrow> rat) \<Rightarrow> 'a \<Rightarrow> 'a list \<Rightarrow> 'a" where
  "py_max_from key best [] = best"
| "py_max_from key best (x # xs) = py_max_from key (if key x > key best then x else best) xs"

definition py_max_by :: "('a \<Rightarrow> rat) \<Rightarrow> 'a list \<Rightarrow> 'a" where
  "py_max_by key xs = py_max_from key (hd xs) (tl xs)"

text \<open>
  The score of one remaining candidate against the candidates selected so far:
  \<^verbatim>\<open>lambda_param * relevance - (1 - lambda_param) * max_similarity\<close>, every operation
  rounded.
\<close>

definition mmr_score ::
  "rag_env \<Rightarrow> rat list \<Rightarrow> rat list list \<Rightarrow> rat \<Rightarrow> nat list \<Rightarrow> nat \<Rightarrow> py_error + rat" where
  "mmr_score env query_vec chunk_vecs lambda_param selected_indices idx =
     (case cosine_similarity env [query_vec] [chunk_vecs ! idx] of
        Inl e \<Rightarrow> Inl e
      | Inr k \<Rightarrow>
          (case py_first k of
             Inl e \<Rightarrow> Inl e
           | Inr row \<Rightarrow>
               (case py_first row of
                  Inl e \<Rightarrow> Inl e
                | Inr relevance \<Rightarrow>
                    (case (if selected_indices \<noteq> []
                           then (case cosine_similarity env [chunk_vecs ! idx]
                                        (map (\<lambda>s. chunk_vecs ! s) selected_indices) of
                                   Inl e \<Rightarrow> Inl e
                                 | Inr k' \<Rightarrow>
                                     (case py_first k' of
                                        Inl e \<Rightarrow> Inl e
                                      | Inr similarities \<Rightarrow> np_max similarities))
                           else Inr 0) of
                       Inl e \<Rightarrow> Inl e
                     | Inr max_similarity \<Rightarrow>
                         Inr (fsub (fmul lambda_param relevance)
                                   (fmul (fsub 1 lambda_param) max_similarity))))))"

text \<open>The scores of the remaining candidates; the first exception ends the loop.\<close>

fun mmr_scores ::
  "rag_env \<Rightarrow> rat list \<Rightarrow> rat list list \<Rightarrow> rat \<Rightarrow> nat list \<Rightarrow> nat list
     \<Rightarrow> py_error + (nat \<times> rat) list" where
  "mmr_scores env query_vec chunk_vecs lambda_param selected_indices [] = Inr []"
| "mmr_scores env query_vec chunk_vecs lambda_param selected_indices (idx # rest) =
     (case mmr_score env query_vec chunk_vecs lambda_param selected_indices idx of
        Inl e \<Rightarrow> Inl e
      | Inr score \<Rightarrow>
          (case mmr_scores env query_vec chunk_vecs lambda_param selected_indices rest of
             Inl e \<Rightarrow> Inl e
           | Inr scores \<Rightarrow> Inr ((idx, score) # scores)))"

text \<open>The loop of the reranking.\<close>

function mmr_loop ::
  "rag_env \<Rightarrow> rat list \<Rightarrow> rat list list \<Rightarrow> int \<Rightarrow> rat \<Rightarrow> nat list \<Rightarrow> nat list
     \<Rightarrow> py_error + nat list" where
  "mmr_loop env query_vec chunk_vecs limit lambda_param selected_indices remaining_indices =
     (if int (length selected_indices) < limit \<and> remaining_indices \<noteq> []
      then (case mmr_scores env query_vec chunk_vecs lambda_param selected_indices remaining_indices of
              Inl e \<Rightarrow> Inl e
            | Inr scores \<Rightarrow>
                (let best_idx = fst (py_max_by snd scores)
                 in mmr_loop env query_vec chunk_vecs limit lambda_param
                      (selected_indices @ [best_idx]) (remove1 best_idx remaining_indices)))
      else Inr selected_indices)"
  by pat_completeness auto

lemma py_max_from_mem: "py_max_from key best xs \<in> set (best # xs)"
  by (induction xs arbitrary: best) auto

lemma py_max_by_mem: "xs \<noteq> [] \<Longrightarrow> py_max_by key xs \<in> set xs"
  using py_max_from_mem [of key "hd xs" "tl xs"] by (cases xs) (auto simp: py_max_by_def)

lemma mmr_scores_indices:
  "mmr_scores env q vs l sel remaining = Inr scores \<Longrightarrow> map fst scores = remaining"
  by (induction remaining arbitrary: scores) (auto split: sum.splits)

lemma mmr_best_in_remaining:
  assumes "remaining_indices \<noteq> []"
    and "mmr_scores env q vs l sel remaining_indices = Inr scores"
  shows "fst (py_max_by snd scores) \<in> set remaining_indices"
proof -
  have indices: "map fst scores = remaining_indices"
    using assms(2) by (rule mmr_scores_indices)
  then have "scores \<noteq> []"
    using assms(1) by auto
  then have "py_max_by snd scores \<in> set scores"
    by (rule py_max_by_mem)
  then have "fst (py_max_by snd scores) \<in> set (map fst scores)"
    by simp
  then show ?thesis
    unfolding indices .
qed

termination mmr_loop
proof (relation "measure (\<lambda>(env, q, vs, k, l, sel, remaining). length remaining)")
  show "wf (measure (\<lambda>(env, q, vs, k, l, sel, remaining). length remaining))"
    by simp
next
  fix env :: rag_env and query_vec :: "rat list" and chunk_vecs :: "rat list list" and limit :: int
    and lambda_param :: rat and selected_indices remaining_indices :: "nat list"
    and scores :: "(nat \<times> rat) list" and best_idx :: nat
  assume "int (length selected_indices) < limit \<and> remaining_indices \<noteq> []"
    and "mmr_scores env query_vec chunk_vecs lambda_param selected_indices remaining_indices = Inr scores"
    and "best_idx = fst (py_max_by snd scores)"
  then have "best_idx \<in> set remaining_indices"
    using mmr_best_in_remaining by simp
  then have "length (remove1 best_idx remaining_indices) < length remaining_indices"
    using length_pos_if_in_set [of best_idx remaining_indices] by (simp add: length_remove1)
  then show "((env, query_vec, chunk_vecs, limit, lambda_param, selected_indices @ [best_idx],
               remove1 best_idx remaining_indices),
              (env, query_vec, chunk_vecs, limit, lambda_param, selected_indices, remaining_indices))
             \<in> measure (\<lambda>(env, q, vs, k, l, sel, remaining). length remaining)"
    by simp
qed

text \<open>
  \<^verbatim>\<open>_apply_mmr_reranking\<close>.  A pool that is not larger than the limit is returned as it
  is.  Otherwise the embeddings are put into an array, for which numpy needs rows of one
  length (a chunk without embedding gets as many zeros as the query has components), the
  first candidate of the pool is selected, and the loop selects the others for as long
  as fewer than \<open>limit\<close> are selected.
\<close>

definition chunk_embeddings :: "(DocumentChunk \<times> rat) list \<Rightarrow> rat list \<Rightarrow> rat list list" where
  "chunk_embeddings chunk_results query_embedding =
     map (\<lambda>(c, s). case embedding c of
                      None \<Rightarrow> replicate (length query_embedding) 0
                    | Some e \<Rightarrow> if e \<noteq> [] then e else replicate (length query_embedding) 0)
         chunk_results"

definition apply_mmr_reranking ::
  "rag_env \<Rightarrow> (DocumentChunk \<times> rat) list \<Rightarrow> rat list \<Rightarrow> int \<Rightarrow> rat
     \<Rightarrow> py_error + (DocumentChunk \<times> rat) list" where
  "apply_mmr_reranking env chunk_results query_embedding limit lambda_param =
     (if int (length chunk_results) \<le> limit then Inr chunk_results
      else (let chunk_vecs = chunk_embeddings chunk_results query_embedding
            in if \<exists>v \<in> set chunk_vecs. length v \<noteq> length (hd chunk_vecs)
               then Inl (ValueError ''inhomogeneous shape'')
               else if chunk_results = []
               then Inl (ValueError ''list.remove(x): x not in list'')
               else (case mmr_loop env query_embedding chunk_vecs limit lambda_param [0]
                            (remove1 0 [0 ..< length chunk_results]) of
                       Inl e \<Rightarrow> Inl e
                     | Inr selected_indices \<Rightarrow> Inr (map (\<lambda>i. chunk_results ! i) selected_indices))))"

subsection \<open>Search\<close>

definition search ::
  "rag_env \<Rightarrow> string \<Rightarrow> string \<Rightarrow> uuid list option \<Rightarrow> int \<Rightarrow> rat \<Rightarrow> bool \<Rightarrow> int
     \<Rightarrow> py_error + SearchResult list" where
  "search env query org document_ids limit similarity_threshold include_context context_size =
     (case generate_query_embedding env query of
        Inl e \<Rightarrow> Inl e
      | Inr query_embedding \<Rightarrow>
          (case similarity_search env query_embedding org document_ids (limit * 2) similarity_threshold of
             Inl e \<Rightarrow> Inl e
           | Inr chunk_results \<Rightarrow>
               if chunk_results = [] then Inr []
               else (case apply_mmr_reranking env chunk_results query_embedding limit (b64 (7 / 10)) of
                       Inl e \<Rightarrow> Inl e
                     | Inr reranked_chunks \<Rightarrow>
                         Inr (map (\<lambda>(c, s).
                                \<lparr>chunk = c, SearchResult.similarity_score = s,
                                 document = get_document_by_id env (DocumentChunk.document_id c) org,
                                 context_chunks =
                                   (if include_context
                                    then Some (get_nearby_chunks env (DocumentChunk.id c) org context_size)
                                    else None)\<rparr>)
                              reranked_chunks))))"

subsection \<open>Context window and citations\<close>

definition chunks_to_include :: "SearchResult \<Rightarrow> DocumentChunk list" where
  "chunks_to_include result =
     (case context_chunks result of
        None \<Rightarrow> [chunk result]
      | Some cs \<Rightarrow> if cs \<noteq> [] then sort_key chunk_no cs else [chunk result])"

definition chunk_line :: "DocumentChunk \<Rightarrow> string" where
  "chunk_line c =
     (let chunk_text = py_strip (DocumentChunk.text' c);
          page_info = (case DocumentChunk.page c of
                         None \<Rightarrow> ''''
                       | Some p \<Rightarrow> if p \<noteq> 0 then '' (Page '' @ str_int p @ '')'' else '''')
      in chunk_text @ page_info @ [CHR 0x0A])"

definition section_text :: "SearchResult \<Rightarrow> string" where
  "section_text result =
     (let document_title = (case document result of None \<Rightarrow> ''Unknown Document'' | Some d \<Rightarrow> title d)
      in [CHR 0x0A] @ ''--- From: '' @ document_title @ '' ---'' @ [CHR 0x0A]
         @ concat (map chunk_line (chunks_to_include result)))"

definition truncation_notice :: string where
  "truncation_notice = [CHR 0x0A] @ ''[... truncated ...]''"

text \<open>The loop of \<^verbatim>\<open>get_context_window\<close>; the \<^verbatim>\<open>break\<close> ends the recursion.\<close>

fun context_loop :: "string list \<Rightarrow> int \<Rightarrow> int \<Rightarrow> SearchResult list \<Rightarrow> string list" where
  "context_loop context_parts current_length max_context_length [] = context_parts"
| "context_loop context_parts current_length max_context_length (result # rest) =
     (let st = section_text result
      in if current_length + int (length st) > max_context_length
         then (if current_length = 0
               then context_parts @ [py_slice_to st (max_context_length - 100) @ truncation_notice]
               else context_parts)
         else context_loop (context_parts @ [st]) (current_length + int (length st))
                max_context_length rest)"

definition get_context_window :: "SearchResult list \<Rightarrow> int \<Rightarrow> string" where
  "get_context_window search_results max_context_length =
     py_join [CHR 0x0A] (context_loop [] 0 max_context_length search_results)"

definition make_citation :: "SearchResult \<Rightarrow> Document \<Rightarrow> Citation" where
  "make_citation result d =
     \<lparr>Citation.document_id = DocumentChunk.document_id (chunk result),
      document_title = title d,
      page = DocumentChunk.page (chunk result),
      chunk_id = DocumentChunk.id (chunk result),
      text' = (let t = DocumentChunk.text' (chunk result)
               in if length t > 200 then take 200 t @ ''...'' else t),
      relevance_score = SearchResult.similarity_score result\<rparr>"

definition extract_citations :: "SearchResult list \<Rightarrow> string \<Rightarrow> Citation list" where
  "extract_citations search_results response_text =
     sort_desc relevance_score
       (concat (map (\<lambda>result. case document result of None \<Rightarrow> [] | Some d \<Rightarrow> [make_citation result d])
                    search_results))"

subsection \<open>The language model\<close>

definition fallback_model :: string where
  "fallback_model = ''claude-3-sonnet-20240229''"

definition get_model_for_plan :: "string \<Rightarrow> string" where
  "get_model_for_plan plan =
     (let p = py_lower plan
      in if p = ''free'' then ''claude-3-haiku-20240307''
         else if p = ''pro'' then ''claude-3-sonnet-20240229''
         else if p = ''enterprise'' then ''claude-3-opus-20240229''
         else fallback_model)"

definition system_prompt :: string where
  "system_prompt =
     ''You are an expert legal AI assistant specializing in contract analysis. Your role is to:'' @
     [CHR 0x0A] @ [CHR 0x0A] @
     ''1. Provide accurate, precise answers based solely on the provided document context'' @
     [CHR 0x0A] @ ''2. Include specific citations with page numbers when available'' @ [CHR 0x0A] @
     ''3. Highlight potential risks, missing clauses, or important legal considerations'' @
     [CHR 0x0A] @ ''4. Use clear, professional language appropriate for legal professionals'' @
     [CHR 0x0A] @
     ''5. If information is not in the provided context, clearly state this limitation'' @
     [CHR 0x0A] @ [CHR 0x0A] @ ''Always structure your responses with:'' @ [CHR 0x0A] @
     ''- Direct answer to the question'' @ [CHR 0x0A] @
     ''- Supporting evidence from the documents with citations'' @ [CHR 0x0A] @
     ''- Any relevant legal considerations or risks'' @ [CHR 0x0A] @
     ''- Confidence level in your analysis''"

definition user_prompt :: "string \<Rightarrow> string \<Rightarrow> string" where
  "user_prompt query context =
     ''Based on the following contract documents, please answer this question:'' @ [CHR 0x0A] @
     [CHR 0x0A] @ ''QUESTION: ''
     @ query @ [CHR 0x0A] @ [CHR 0x0A] @ ''DOCUMENT CONTEXT:'' @ [CHR 0x0A]
     @ context @
     [CHR 0x0A] @ [CHR 0x0A] @
     ''Please provide a comprehensive answer with specific citations to page numbers where available. If the documents don'' @
     [CHR 0x27] @
     ''t contain sufficient information to fully answer the question, please indicate what information is missing.''"

definition uncertainty_phrases :: "string list" where
  "uncertainty_phrases =
     [''not clear'', ''unclear'', ''insufficient information'', ''cannot determine'',
      ''may be'', ''might be'', ''possibly'']"

definition calculate_confidence :: "string \<Rightarrow> string \<Rightarrow> rat" where
  "calculate_confidence response context =
     (let c0 = b64 (5 / 10);
          c1 = (if py_in ''page'' (py_lower response) \<or> py_in ''section'' (py_lower response)
                then fadd c0 (b64 (2 / 10)) else c0);
          c2 = (if length response > 200 then fadd c1 (b64 (1 / 10)) else c1);
          c3 = (if \<exists>phrase \<in> set uncertainty_phrases. py_in phrase (py_lower response)
                then fsub c2 (b64 (1 / 10)) else c2)
      in max 0 (min 1 c3))"

text \<open>\<^verbatim>\<open>_make_api_call\<close> returns the text of the first content block.\<close>

definition make_api_call :: "rag_env \<Rightarrow> string \<Rightarrow> string \<Rightarrow> string \<Rightarrow> py_error + string" where
  "make_api_call env model sys_p user_p =
     (case messages_create env model sys_p user_p of
        Inl e \<Rightarrow> Inl e
      | Inr [] \<Rightarrow> Inl (ValueError ''Empty response from Claude API'')
      | Inr (t # ts) \<Rightarrow> Inr t)"

text \<open>
  \<^verbatim>\<open>generate_response\<close> takes the list of the models called so far and returns it extended
  by the calls it made.
\<close>

definition generate_response ::
  "rag_env \<Rightarrow> string list \<Rightarrow> string \<Rightarrow> string \<Rightarrow> string
     \<Rightarrow> (py_error + string \<times> string \<times> rat) \<times> string list" where
  "generate_response env calls query context plan =
     (let primary_model = get_model_for_plan plan;
          up = user_prompt query context
      in case make_api_call env primary_model system_prompt up of
           Inr response \<Rightarrow>
             (Inr (response, primary_model, calculate_confidence response context),
              calls @ [primary_model])
         | Inl e \<Rightarrow>
             if primary_model \<noteq> fallback_model
             then (case make_api_call env fallback_model system_prompt up of
                     Inr response \<Rightarrow>
                       (Inr (response, fallback_model, calculate_confidence response context),
                        calls @ [primary_model, fallback_model])
                   | Inl fallback_error \<Rightarrow> (Inl fallback_error, calls @ [primary_model, fallback_model]))
             else (Inl e, calls @ [primary_model]))"

subsection \<open>The query\<close>

definition no_results_answer :: string where
  "no_results_answer =
     ''I couldn'' @ [CHR 0x27] @
     ''t find any relevant information in the uploaded documents to answer your question. Please make sure the documents contain information related to your query, or try rephrasing your question.''"

definition error_response :: "rag_env \<Rightarrow> py_error \<Rightarrow> RAGResponse" where
  "error_response env e =
     \<lparr>answer = ''I encountered an error while processing your question: '' @ str_exc env e
                @ ''. Please try again or contact support if the issue persists.'',
      citations = [], confidence = 0, model_used = ''error'',
      processing_time = fsub (time_end env) (time_start env), context_used = ''''\<rparr>"

text \<open>
  \<^verbatim>\<open>RAGService.query\<close>: every exception of the search and of the generation ends in the
  error response.
\<close>

definition query ::
  "rag_env \<Rightarrow> string list \<Rightarrow> string \<Rightarrow> string \<Rightarrow> string \<Rightarrow> uuid list option \<Rightarrow> int \<Rightarrow> rat \<Rightarrow> int
     \<Rightarrow> RAGResponse \<times> string list" where
  "query env calls q org plan document_ids max_results similarity_threshold max_context_length =
     (case search env q org document_ids max_results similarity_threshold True 2 of
        Inl e \<Rightarrow> (error_response env e, calls)
      | Inr search_results \<Rightarrow>
          if search_results = []
          then (\<lparr>answer = no_results_answer, citations = [], confidence = 0, model_used = ''none'',
                 processing_time = fsub (time_end env) (time_start env), context_used = ''''\<rparr>,
                calls)
          else (let context = get_context_window search_results max_context_length
                in case generate_response env calls q context plan of
                     (Inl e, calls') \<Rightarrow> (error_response env e, calls')
                   | (Inr (a, m, c), calls') \<Rightarrow>
                       (\<lparr>answer = a,
                         citations = extract_citations search_results a,
                         confidence = c,
                         model_used = m,
                         processing_time = fsub (time_end env) (time_start env),
                         context_used = (if length context > 500 then take 500 context @ ''...''
                                         else context)\<rparr>,
                        calls')))"

section \<open>Compliance analysis\<close>

datatype RiskLevel = LOW | MEDIUM | HIGH | CRITICAL

datatype ComplianceStatus = COMPLIANT | NON_COMPLIANT | REVIEW_REQUIRED

record ClauseMatch =
  clause_type :: string
  text' :: string
  confidence :: rat
  page :: int
  risk_level :: RiskLevel
  matched_rule :: "string option"

text \<open>
  A rule of a playbook.  \<open>risk_weight\<close> is the value of the JSON number, and
  \<open>description\<close> and the entries of \<open>recommendations\<close> are whatever JSON the playbook
  holds there: the validation does not look at them.
\<close>

record ComplianceRule =
  id :: string
  name :: string
  description :: json
  clause_type :: string
  required :: bool
  patterns :: "string list"
  risk_weight :: rat
  recommendations :: "json list"

record ComplianceResult =
  rule_id :: string
  rule_name :: string
  status :: ComplianceStatus
  matched_clauses :: "ClauseMatch list"
  missing_clause :: bool
  risk_score :: rat
  recommendations :: "json list"

record AnalysisSummary =
  total_rules_evaluated :: nat
  compliant_rules :: nat
  non_compliant_rules :: nat
  review_required_rules :: nat
  compliance_percentage :: int
  overall_risk_score :: int
  risk_category :: string
  analysis_timestamp :: string

record AnalysisResult =
  document_id :: uuid
  playbook_id :: uuid
  overall_risk_score :: int
  compliance_status :: ComplianceStatus
  compliance_results :: "ComplianceResult list"
  missing_clauses :: "string list"
  recommendations :: "json list"
  summary :: AnalysisSummary

record Playbook =
  id :: uuid
  rules_json :: "(string \<times> json) list"

subsection \<open>Regular expressions\<close>

text \<open>
  The engine of \<^verbatim>\<open>re\<close> is modelled for the patterns made of ordinary characters, the dot,
  a backslash before a character that is neither an ASCII letter nor a digit, a star
  behind any of these, the dollar sign, and groups \<^verbatim>\<open>(?-i:...)\<close> of such characters, dots
  and stars, in which the flag \<^verbatim>\<open>re.IGNORECASE\<close> is switched off: the patterns of the
  playbooks of the repository, such as \<^verbatim>\<open>indemnify\<close>, \<^verbatim>\<open>defend.*against\<close> and
  \<^verbatim>\<open>99\.9\<close>, and some more.  A pattern that begins with a repetition sign, that repeats a
  star or a dollar sign, or that ends in a backslash is rejected, as \<^verbatim>\<open>re.compile\<close>
  rejects it.  Every other pattern is left to the parameter \<open>re_other\<close>, which returns the
  error or the function from a text to the spans of the matches that
  \<^verbatim>\<open>re.compile(pattern, re.IGNORECASE).finditer\<close> gives.

  \<open>Lit\<close> is a character of the pattern where the flag is on, \<open>Exact\<close> one inside a group
  where it is off, \<open>AnyChar\<close> the dot and \<open>AtEnd\<close> the dollar sign.
\<close>

datatype re_atom = Lit char | Exact char | AnyChar | AtEnd

type_synonym re_item = "re_atom \<times> bool"

datatype re_parsed = Parsed "re_item list" | Rejected | Unmodelled

definition re_special :: "char \<Rightarrow> bool" where
  "re_special c = (c \<in> set (''.^$*+?{}[]|()'' @ [CHR 0x5C]))"

definition ascii_alnum :: "char \<Rightarrow> bool" where
  "ascii_alnum c =
     (let n = (of_char c :: nat)
      in (48 \<le> n \<and> n \<le> 57) \<or> (65 \<le> n \<and> n \<le> 90) \<or> (97 \<le> n \<and> n \<le> 122))"

definition add_item :: "re_item \<Rightarrow> re_parsed \<Rightarrow> re_parsed" where
  "add_item i r = (case r of Parsed items \<Rightarrow> Parsed (i # items) | Rejected \<Rightarrow> Rejected | Unmodelled \<Rightarrow> Unmodelled)"

definition literal :: "bool \<Rightarrow> char \<Rightarrow> re_atom" where
  "literal cased c = (if cased then Exact c else Lit c)"

text \<open>
  \<open>re_parse cased at_start s\<close> reads the atoms of \<open>s\<close> from the left, \<open>cased\<close> saying
  whether \<open>s\<close> begins inside a group \<^verbatim>\<open>(?-i:...)\<close>; \<open>re_quantifier cased a s\<close> looks for the
  star behind the atom \<open>a\<close>.  A group within a group, a repeated group and a group that
  is not closed are left to \<open>re_other\<close>.
\<close>

fun re_parse :: "bool \<Rightarrow> bool \<Rightarrow> string \<Rightarrow> re_parsed"
  and re_quantifier :: "bool \<Rightarrow> re_atom \<Rightarrow> string \<Rightarrow> re_parsed" where
  "re_parse cased at_start [] = (if cased then Unmodelled else Parsed [])"
| "re_parse cased at_start (c # cs) =
     (if c = CHR ''*'' then Rejected
      else if c = CHR ''+'' \<or> c = CHR ''?'' then (if at_start then Rejected else Unmodelled)
      else if c = CHR 0x5C
      then (case cs of
              [] \<Rightarrow> Rejected
            | e # rest \<Rightarrow> if ascii_alnum e then Unmodelled else re_quantifier cased (literal cased e) rest)
      else if c = CHR ''.'' then re_quantifier cased AnyChar cs
      else if c = CHR ''$''
      then (if take 1 cs = ''*'' then Rejected else add_item (AtEnd, False) (re_parse cased False cs))
      else if c = CHR ''('' \<and> \<not> cased
      then (if take 4 cs = ''?-i:'' then re_parse True True (drop 4 cs) else Unmodelled)
      else if c = CHR '')'' \<and> cased
      then (if take 1 cs = ''*'' then Unmodelled else re_parse False False cs)
      else if re_special c then Unmodelled
      else re_quantifier cased (literal cased c) cs)"
| "re_quantifier cased a [] = (if cased then Unmodelled else Parsed [(a, False)])"
| "re_quantifier cased a (c # cs) =
     (if c = CHR ''*'' then add_item (a, True) (re_parse cased False cs)
      else add_item (a, False) (re_parse cased False (c # cs)))"

datatype compiled_pattern = Fragment "re_item list" | Other "string \<Rightarrow> (nat \<times> nat) list"

definition re_compile ::
  "(string \<Rightarrow> py_error + (string \<Rightarrow> (nat \<times> nat) list)) \<Rightarrow> string \<Rightarrow> py_error + compiled_pattern" where
  "re_compile re_other pattern =
     (case re_parse False True pattern of
        Parsed items \<Rightarrow> Inr (Fragment items)
      | Rejected \<Rightarrow> Inl ReError
      | Unmodelled \<Rightarrow> (case re_other pattern of Inl e \<Rightarrow> Inl e | Inr f \<Rightarrow> Inr (Other f)))"

text \<open>
  With \<^verbatim>\<open>re.IGNORECASE\<close> a character matches a literal when their lower cases agree, and
  without it when the two are equal.  The dot matches every character but the newline.
  The dollar sign takes no character.
\<close>

definition atom_matches :: "re_atom \<Rightarrow> char \<Rightarrow> bool" where
  "atom_matches a c =
     (case a of
        Lit l \<Rightarrow> py_lower_char c = py_lower_char l
      | Exact l \<Rightarrow> c = l
      | AnyChar \<Rightarrow> c \<noteq> CHR 0x0A
      | AtEnd \<Rightarrow> False)"

text \<open>
  The length of the match of the items at the beginning of a text, if there is one.  A
  star takes as many characters as it can and gives them back one by one.  The dollar
  sign matches at the end of the text and before a newline that ends the text.
\<close>

fun match_here :: "re_item list \<Rightarrow> string \<Rightarrow> nat option" where
  "match_here [] s = Some 0"
| "match_here ((a, False) # items) [] = (if a = AtEnd then match_here items [] else None)"
| "match_here ((a, False) # items) (c # cs) =
     (if a = AtEnd then (if c = CHR 0x0A \<and> cs = [] then match_here items (c # cs) else None)
      else if atom_matches a c then map_option Suc (match_here items cs) else None)"
| "match_here ((a, True) # items) [] = match_here items []"
| "match_here ((a, True) # items) (c # cs) =
     (if atom_matches a c
      then (case match_here ((a, True) # items) cs of
              Some n \<Rightarrow> Some (Suc n)
            | None \<Rightarrow> match_here items (c # cs))
      else match_here items (c # cs))"

text \<open>
  \<^verbatim>\<open>finditer\<close>: the matches from left to right without overlap.  The search goes on behind
  a match, and one character further behind an empty one.
\<close>

function finditer_from :: "re_item list \<Rightarrow> nat \<Rightarrow> string \<Rightarrow> (nat \<times> nat) list" where
  "finditer_from items pos [] =
     (case match_here items [] of Some n \<Rightarrow> [(pos, pos + n)] | None \<Rightarrow> [])"
| "finditer_from items pos (c # cs) =
     (case match_here items (c # cs) of
        Some n \<Rightarrow> (pos, pos + n) # finditer_from items (pos + max n 1) (drop (max n 1) (c # cs))
      | None \<Rightarrow> finditer_from items (pos + 1) cs)"
  by pat_completeness auto
termination
  by (relation "measure (\<lambda>(items, pos, s). length s)") auto

definition finditer :: "compiled_pattern \<Rightarrow> string \<Rightarrow> (nat \<times> nat) list" where
  "finditer regex s = (case regex of Fragment items \<Rightarrow> finditer_from items 0 s | Other f \<Rightarrow> f s)"



subsection \<open>Rule evaluation\<close>

record PatternMatch =
  text' :: string
  matched_text :: string
  confidence :: rat
  page :: int
  chunk_id :: uuid

definition legal_keywords :: "string list" where
  "legal_keywords =
     [''shall'', ''agreement'', ''contract'', ''party'', ''parties'',
      ''liability'', ''damages'', ''breach'', ''termination'', ''clause'']"

definition calculate_match_confidence :: "string \<Rightarrow> string \<Rightarrow> string \<Rightarrow> rat" where
  "calculate_match_confidence pattern context matched =
     (let base_confidence =
            (if py_lower pattern = py_lower matched then fadd (b64 (7 / 10)) (b64 (2 / 10))
             else b64 (7 / 10));
          context_lower = py_lower context;
          keyword_matches = length (filter (\<lambda>keyword. py_in keyword context_lower) legal_keywords);
          confidence_boost = min (b64 (1 / 10)) (fmul (of_nat keyword_matches) (b64 (2 / 100)))
      in min 1 (fadd base_confidence confidence_boost))"

definition match_in_chunk :: "string \<Rightarrow> DocumentChunk \<Rightarrow> nat \<times> nat \<Rightarrow> PatternMatch" where
  "match_in_chunk pattern c found =
     (let t = DocumentChunk.text' c;
          m_start = int (fst found);
          m_end = int (snd found);
          s = max 0 (m_start - 100);
          e = min (int (length t)) (m_end + 100);
          context = py_strip (py_slice t s e);
          matched = py_slice t m_start m_end
      in \<lparr>PatternMatch.text' = context,
          matched_text = matched,
          confidence = calculate_match_confidence pattern context matched,
          page = (case DocumentChunk.page c of None \<Rightarrow> 1 | Some p \<Rightarrow> if p = 0 then 1 else p),
          chunk_id = DocumentChunk.id c\<rparr>)"

text \<open>
  \<^verbatim>\<open>_find_pattern_matches\<close> compiles the pattern first and then searches the chunks one by
  one; the joined document text is passed in and not read.
\<close>

definition find_pattern_matches ::
  "(string \<Rightarrow> py_error + (string \<Rightarrow> (nat \<times> nat) list)) \<Rightarrow> string \<Rightarrow> string \<Rightarrow> DocumentChunk list
     \<Rightarrow> py_error + PatternMatch list" where
  "find_pattern_matches re_other pattern document_text cs =
     (case re_compile re_other pattern of
        Inl e \<Rightarrow> Inl e
      | Inr regex_pattern \<Rightarrow>
          Inr (concat (map (\<lambda>c. map (match_in_chunk pattern c) (finditer regex_pattern (DocumentChunk.text' c)))
                           cs)))"

definition determine_clause_risk_level :: "rat \<Rightarrow> RiskLevel" where
  "determine_clause_risk_level conf =
     (if conf \<ge> b64 (9 / 10) then LOW
      else if conf \<ge> b64 (7 / 10) then MEDIUM
      else if conf \<ge> b64 (5 / 10) then HIGH
      else CRITICAL)"

definition clause_match :: "ComplianceRule \<Rightarrow> PatternMatch \<Rightarrow> ClauseMatch" where
  "clause_match rule m =
     \<lparr>ClauseMatch.clause_type = ComplianceRule.clause_type rule,
      text' = PatternMatch.text' m,
      confidence = PatternMatch.confidence m,
      page = PatternMatch.page m,
      risk_level = determine_clause_risk_level (PatternMatch.confidence m),
      matched_rule = Some (ComplianceRule.id rule)\<rparr>"

text \<open>The loop over the patterns of a rule; an exception ends it.\<close>

fun collect_matches ::
  "(string \<Rightarrow> py_error + (string \<Rightarrow> (nat \<times> nat) list)) \<Rightarrow> ComplianceRule \<Rightarrow> string \<Rightarrow> DocumentChunk list
     \<Rightarrow> string list \<Rightarrow> py_error + ClauseMatch list" where
  "collect_matches re_other rule document_text cs [] = Inr []"
| "collect_matches re_other rule document_text cs (pattern # rest) =
     (case find_pattern_matches re_other pattern document_text cs of
        Inl e \<Rightarrow> Inl e
      | Inr ms \<Rightarrow>
          (case collect_matches re_other rule document_text cs rest of
             Inl e \<Rightarrow> Inl e
           | Inr others \<Rightarrow> Inr (map (clause_match rule) ms @ others)))"

definition evaluate_rule ::
  "(string \<Rightarrow> py_error + (string \<Rightarrow> (nat \<times> nat) list)) \<Rightarrow> ComplianceRule \<Rightarrow> string \<Rightarrow> DocumentChunk list
     \<Rightarrow> string \<Rightarrow> py_error + ComplianceResult" where
  "evaluate_rule re_other rule document_text cs org =
     (case collect_matches re_other rule document_text cs (patterns rule) of
        Inl e \<Rightarrow> Inl e
      | Inr matched \<Rightarrow>
          (let (st, missing, risk) =
                 (if required rule \<and> matched = []
                  then (NON_COMPLIANT, True, fmul (risk_weight rule) 100)
                  else if matched \<noteq> []
                  then (let avg_confidence =
                              fdiv (py_sum (map ClauseMatch.confidence matched)) (of_nat (length matched))
                        in if avg_confidence \<ge> b64 (8 / 10) then (COMPLIANT, False, 0)
                           else if avg_confidence \<ge> b64 (5 / 10)
                           then (REVIEW_REQUIRED, False, fmul (risk_weight rule) 30)
                           else (NON_COMPLIANT, False, fmul (risk_weight rule) 70))
                  else (COMPLIANT, False, 0))
           in Inr \<lparr>rule_id = ComplianceRule.id rule,
                   rule_name = name rule,
                   status = st,
                   matched_clauses = matched,
                   missing_clause = missing,
                   risk_score = risk,
                   recommendations =
                     (if st \<noteq> COMPLIANT then ComplianceRule.recommendations rule else [])\<rparr>))"

subsection \<open>Aggregation\<close>

definition calculate_overall_risk_score :: "ComplianceResult list \<Rightarrow> int" where
  "calculate_overall_risk_score results =
     (if results = [] then 0
      else (let total_risk = py_sum (map risk_score results);
                max_possible_risk = int (length results) * 100;
                normalized_score =
                  (if max_possible_risk > 0
                   then py_int (fmul (fdiv total_risk (b64 (of_int max_possible_risk))) 100)
                   else 0)
            in min 100 normalized_score))"

definition determine_compliance_status :: "ComplianceResult list \<Rightarrow> ComplianceStatus" where
  "determine_compliance_status results =
     (if results = [] then COMPLIANT
      else (let non_compliant = length (filter (\<lambda>r. status r = NON_COMPLIANT) results);
                review_required = length (filter (\<lambda>r. status r = REVIEW_REQUIRED) results)
            in if non_compliant > 0 then NON_COMPLIANT
               else if review_required > 0 then REVIEW_REQUIRED
               else COMPLIANT))"

definition get_risk_category :: "int \<Rightarrow> string" where
  "get_risk_category score =
     (if score \<ge> 80 then ''Critical''
      else if score \<ge> 60 then ''High''
      else if score \<ge> 30 then ''Medium''
      else ''Low'')"

definition create_analysis_summary :: "string \<Rightarrow> ComplianceResult list \<Rightarrow> int \<Rightarrow> AnalysisSummary" where
  "create_analysis_summary now results score =
     (let total_rules = length results;
          compliant = length (filter (\<lambda>r. status r = COMPLIANT) results);
          non_compliant = length (filter (\<lambda>r. status r = NON_COMPLIANT) results);
          review = length (filter (\<lambda>r. status r = REVIEW_REQUIRED) results)
      in \<lparr>total_rules_evaluated = total_rules,
          compliant_rules = compliant,
          non_compliant_rules = non_compliant,
          review_required_rules = review,
          compliance_percentage =
            (if total_rules > 0 then py_int (fmul (fdiv (of_nat compliant) (of_nat total_rules)) 100)
             else 100),
          AnalysisSummary.overall_risk_score = score,
          risk_category = get_risk_category score,
          analysis_timestamp = now\<rparr>)"

subsection \<open>Playbook schema\<close>

text \<open>
  A JSON object read into a dictionary keeps the last value of a key.  \<^verbatim>\<open>field in rule\<close>
  and \<^verbatim>\<open>rule[field]\<close> are what Python does on the value that stands where a rule is
  expected: a dictionary, and also a string (search for a piece), a list (membership) or
  a number, a boolean or \<^verbatim>\<open>None\<close> (\<^verbatim>\<open>TypeError\<close>).
\<close>

definition dict_get :: "(string \<times> json) list \<Rightarrow> string \<Rightarrow> json option" where
  "dict_get kvs k = map_of (rev kvs) k"

definition json_contains :: "string \<Rightarrow> json \<Rightarrow> py_error + bool" where
  "json_contains field v =
     (case v of
        JObj kvs \<Rightarrow> Inr (dict_get kvs field \<noteq> None)
      | JStr s \<Rightarrow> Inr (py_in field s)
      | JArr xs \<Rightarrow> Inr (JStr field \<in> set xs)
      | _ \<Rightarrow> Inl TypeError)"

definition json_getitem :: "json \<Rightarrow> string \<Rightarrow> py_error + json" where
  "json_getitem v field =
     (case v of
        JObj kvs \<Rightarrow> (case dict_get kvs field of None \<Rightarrow> Inl (KeyError field) | Some x \<Rightarrow> Inr x)
      | _ \<Rightarrow> Inl TypeError)"

definition is_str :: "json \<Rightarrow> bool" where
  "is_str v = (case v of JStr s \<Rightarrow> True | _ \<Rightarrow> False)"

definition is_bool :: "json \<Rightarrow> bool" where
  "is_bool v = (case v of JBool b \<Rightarrow> True | _ \<Rightarrow> False)"

definition is_list :: "json \<Rightarrow> bool" where
  "is_list v = (case v of JArr xs \<Rightarrow> True | _ \<Rightarrow> False)"

text \<open>\<^verbatim>\<open>isinstance(v, (int, float))\<close>: a boolean is an integer in Python.\<close>

definition is_number :: "json \<Rightarrow> bool" where
  "is_number v = (case v of JInt i \<Rightarrow> True | JFloat x \<Rightarrow> True | JBool b \<Rightarrow> True | _ \<Rightarrow> False)"

definition json_number :: "json \<Rightarrow> rat" where
  "json_number v =
     (case v of JInt i \<Rightarrow> of_int i | JFloat x \<Rightarrow> x | JBool b \<Rightarrow> (if b then 1 else 0) | _ \<Rightarrow> 0)"

definition quoted :: "string \<Rightarrow> string" where
  "quoted s = [CHR 0x27] @ s @ [CHR 0x27]"

fun collect_errors :: "(py_error + string list) list \<Rightarrow> py_error + string list" where
  "collect_errors [] = Inr []"
| "collect_errors (x # xs) =
     (case x of
        Inl e \<Rightarrow> Inl e
      | Inr a \<Rightarrow> (case collect_errors xs of Inl e \<Rightarrow> Inl e | Inr b \<Rightarrow> Inr (a @ b)))"

definition missing_field :: "json \<Rightarrow> string \<Rightarrow> string \<Rightarrow> py_error + string list" where
  "missing_field rule pre field =
     (case json_contains field rule of
        Inl e \<Rightarrow> Inl e
      | Inr present \<Rightarrow>
          Inr (if present then [] else [pre @ '': Missing required field '' @ quoted field]))"

definition check_field :: "json \<Rightarrow> string \<Rightarrow> (json \<Rightarrow> string list) \<Rightarrow> py_error + string list" where
  "check_field rule field judge =
     (case json_contains field rule of
        Inl e \<Rightarrow> Inl e
      | Inr present \<Rightarrow>
          if present
          then (case json_getitem rule field of Inl e \<Rightarrow> Inl e | Inr v \<Rightarrow> Inr (judge v))
          else Inr [])"

definition validate_rule_schema :: "json \<Rightarrow> nat \<Rightarrow> py_error + string list" where
  "validate_rule_schema rule index =
     (let pre = ''Rule '' @ str_nat index
      in collect_errors
           (map (missing_field rule pre)
                [''id'', ''name'', ''clause_type'', ''required'', ''patterns'', ''risk_weight'']
            @ [check_field rule ''id''
                 (\<lambda>v. if is_str v then [] else [pre @ '': '' @ quoted ''id'' @ '' must be a string'']),
               check_field rule ''name''
                 (\<lambda>v. if is_str v then [] else [pre @ '': '' @ quoted ''name'' @ '' must be a string'']),
               check_field rule ''clause_type''
                 (\<lambda>v. if is_str v then []
                      else [pre @ '': '' @ quoted ''clause_type'' @ '' must be a string'']),
               check_field rule ''required''
                 (\<lambda>v. if is_bool v then []
                      else [pre @ '': '' @ quoted ''required'' @ '' must be a boolean'']),
               check_field rule ''patterns''
                 (\<lambda>v. case v of
                        JArr ps \<Rightarrow> if \<forall>p \<in> set ps. is_str p then []
                                   else [pre @ '': All patterns must be strings'']
                      | _ \<Rightarrow> [pre @ '': '' @ quoted ''patterns'' @ '' must be an array'']),
               check_field rule ''risk_weight''
                 (\<lambda>v. if \<not> is_number v
                      then [pre @ '': '' @ quoted ''risk_weight'' @ '' must be a number'']
                      else if \<not> (0 \<le> json_number v \<and> json_number v \<le> 1)
                      then [pre @ '': '' @ quoted ''risk_weight'' @ '' must be between 0 and 1'']
                      else []),
               check_field rule ''recommendations''
                 (\<lambda>v. if is_list v then []
                      else [pre @ '': '' @ quoted ''recommendations'' @ '' must be an array''])]))"

definition validate_playbook_schema :: "(string \<times> json) list \<Rightarrow> py_error + bool \<times> string list" where
  "validate_playbook_schema rj =
     (let top = concat (map (\<lambda>field. if dict_get rj field = None
                                      then [''Missing required field: '' @ field] else [])
                            [''version'', ''name'', ''rules''])
      in case (case dict_get rj ''rules'' of
                 None \<Rightarrow> Inr []
               | Some (JArr rs) \<Rightarrow>
                   collect_errors (map (\<lambda>(i, rule). validate_rule_schema rule i) (enumerate 0 rs))
               | Some other \<Rightarrow> Inr [quoted ''rules'' @ '' must be an array'']) of
           Inl e \<Rightarrow> Inl e
         | Inr rule_errors \<Rightarrow> Inr (top @ rule_errors = [], top @ rule_errors))"

text \<open>
  \<^verbatim>\<open>parse_playbook_rules\<close> runs after a successful validation, so every rule is a
  dictionary with the six required fields of the right types; for any other shape, which
  the validation excludes, the model answers \<^verbatim>\<open>TypeError\<close>.
\<close>

definition parse_rule :: "json \<Rightarrow> py_error + ComplianceRule" where
  "parse_rule rule_data =
     (case rule_data of
        JObj kvs \<Rightarrow>
          (case dict_get kvs ''id'' of
             Some (JStr i) \<Rightarrow>
               (case dict_get kvs ''name'' of
                  Some (JStr n) \<Rightarrow>
                    (case dict_get kvs ''clause_type'' of
                       Some (JStr ct) \<Rightarrow>
                         (case dict_get kvs ''required'' of
                            Some (JBool req) \<Rightarrow>
                              (case dict_get kvs ''patterns'' of
                                 Some (JArr ps) \<Rightarrow>
                                   (case dict_get kvs ''risk_weight'' of
                                      Some w \<Rightarrow>
                                        if (\<forall>p \<in> set ps. is_str p) \<and> is_number w
                                        then Inr \<lparr>ComplianceRule.id = i,
                                                 name = n,
                                                 description =
                                                   (case dict_get kvs ''description'' of
                                                      None \<Rightarrow> JStr '''' | Some x \<Rightarrow> x),
                                                 clause_type = ct,
                                                 required = req,
                                                 patterns = map (\<lambda>p. case p of JStr s \<Rightarrow> s | _ \<Rightarrow> '''') ps,
                                                 risk_weight = json_number w,
                                                 recommendations =
                                                   (case dict_get kvs ''recommendations'' of
                                                      Some (JArr xs) \<Rightarrow> xs | _ \<Rightarrow> [])\<rparr>
                                        else Inl TypeError
                                    | None \<Rightarrow> Inl (KeyError ''risk_weight''))
                               | _ \<Rightarrow> Inl TypeError)
                          | _ \<Rightarrow> Inl TypeError)
                     | _ \<Rightarrow> Inl TypeError)
                | _ \<Rightarrow> Inl TypeError)
           | _ \<Rightarrow> Inl TypeError)
      | _ \<Rightarrow> Inl TypeError)"

fun parse_rules :: "json list \<Rightarrow> py_error + ComplianceRule list" where
  "parse_rules [] = Inr []"
| "parse_rules (r # rs) =
     (case parse_rule r of
        Inl e \<Rightarrow> Inl e
      | Inr rule \<Rightarrow> (case parse_rules rs of Inl e \<Rightarrow> Inl e | Inr rules \<Rightarrow> Inr (rule # rules)))"

definition parse_playbook_rules :: "(string \<times> json) list \<Rightarrow> py_error + ComplianceRule list" where
  "parse_playbook_rules rj =
     (case dict_get rj ''rules'' of
        None \<Rightarrow> Inr []
      | Some (JArr rs) \<Rightarrow> parse_rules rs
      | Some other \<Rightarrow> Inl TypeError)"

subsection \<open>The analysis of a document\<close>

record compliance_env =
  get_document :: "uuid \<Rightarrow> string \<Rightarrow> Document option"
  get_playbook :: "uuid \<Rightarrow> string \<Rightarrow> Playbook option"
  get_default_playbook :: "string \<Rightarrow> Playbook option"
  get_chunks_by_document :: "uuid \<Rightarrow> string \<Rightarrow> DocumentChunk list"
  re_other :: "string \<Rightarrow> py_error + (string \<Rightarrow> (nat \<times> nat) list)"
  utcnow :: string

text \<open>The loop over the rules; the source has no handler around the evaluation of a rule.\<close>

fun evaluate_rules ::
  "(string \<Rightarrow> py_error + (string \<Rightarrow> (nat \<times> nat) list)) \<Rightarrow> ComplianceRule list \<Rightarrow> string
     \<Rightarrow> DocumentChunk list \<Rightarrow> string \<Rightarrow> py_error + ComplianceResult list" where
  "evaluate_rules ro [] document_text cs org = Inr []"
| "evaluate_rules ro (rule # rules) document_text cs org =
     (case evaluate_rule ro rule document_text cs org of
        Inl e \<Rightarrow> Inl e
      | Inr result \<Rightarrow>
          (case evaluate_rules ro rules document_text cs org of
             Inl e \<Rightarrow> Inl e
           | Inr results \<Rightarrow> Inr (result # results)))"

definition analyze_document ::
  "compliance_env \<Rightarrow> uuid \<Rightarrow> string \<Rightarrow> uuid option \<Rightarrow> py_error + AnalysisResult" where
  "analyze_document env doc_id org pb_id =
     (case get_document env doc_id org of
        None \<Rightarrow> Inl (ValueError (''Document '' @ doc_id @ '' not found''))
      | Some doc \<Rightarrow>
          (case (case pb_id of Some p \<Rightarrow> get_playbook env p org | None \<Rightarrow> get_default_playbook env org) of
             None \<Rightarrow> Inl (ValueError ''No playbook found for analysis'')
           | Some playbook \<Rightarrow>
               (case validate_playbook_schema (rules_json playbook) of
                  Inl e \<Rightarrow> Inl e
                | Inr (is_valid, errors) \<Rightarrow>
                    if \<not> is_valid
                    then Inl (ValueError (''Invalid playbook schema: '' @ py_join '', '' errors))
                    else (case parse_playbook_rules (rules_json playbook) of
                            Inl e \<Rightarrow> Inl e
                          | Inr rules \<Rightarrow>
                              (let cs = get_chunks_by_document env doc_id org;
                                   document_text = py_join '' '' (map DocumentChunk.text' cs)
                               in case evaluate_rules (re_other env) rules document_text cs org of
                                    Inl e \<Rightarrow> Inl e
                                  | Inr results \<Rightarrow>
                                      (let score = calculate_overall_risk_score results
                                       in Inr \<lparr>AnalysisResult.document_id = doc_id,
                                               playbook_id = Playbook.id playbook,
                                               overall_risk_score = score,
                                               compliance_status = determine_compliance_status results,
                                               compliance_results = results,
                                               missing_clauses =
                                                 map rule_name
                                                   (filter (\<lambda>r. missing_clause r \<and> status r = NON_COMPLIANT)
                                                      results),
                                               recommendations =
                                                 concat (map ComplianceResult.recommendations results),
                                               summary =
                                                 create_analysis_summary (utcnow env) results score\<rparr>))))))"

section \<open>Example data\<close>

definition example_org :: string where
  "example_org = ''7d444840-9dc0-11d1-b245-5ffdce74fad2''"

text \<open>A stored comparison of two other documents of the organisation.\<close>

definition example_comparison_row :: DocumentComparison where
  "example_comparison_row =
     \<lparr>DocumentComparison.id = ''c1'', org_id = example_org,
      document_a_id = ''doc-c'', document_b_id = ''doc-b'',
      comparison_result =
        Some \<lparr>StoredComparisonData.text_changes =
                 Some [\<lparr>StoredTextChange.change_type = ''added'', text' = ''New clause'',
                        line_number = Some 1, page_number = None, confidence = Some 1\<rparr>],
              clause_changes = Some [],
              similarity_score = Some (b64 (9 / 10))\<rparr>,
      risk_assessment = None,
      summary = Some ''The documents have moderate differences.'',
      created_by = ''user1'', created_at = 5\<rparr>"

text \<open>
  Two documents with the same text, for which \<^verbatim>\<open>difflib.unified_diff\<close> yields no line,
  and a constructor \<^verbatim>\<open>UUID\<close> that accepts the identifier of the organisation.
\<close>

definition example_document :: "uuid \<Rightarrow> Document" where
  "example_document d =
     \<lparr>Document.id = d, org_id = example_org, title = ''Supply agreement'',
      chunks = [\<lparr>DocumentChunk.id = ''chunk-of-'' @ d, org_id = example_org, document_id = d,
                 chunk_no = 0, text' = ''Payment is due within 30 days.'', page = Some 1,
                 embedding = None\<rparr>]\<rparr>"

definition example_compare_env :: compare_env where
  "example_compare_env =
     \<lparr>get_with_chunks =
        (\<lambda>d org. if org = example_org \<and> (d = ''doc-a'' \<or> d = ''doc-b'')
                  then Some (example_document d) else None),
      unified_diff = (\<lambda>a b. []),
      uuid_ok = (\<lambda>s. s = example_org)\<rparr>"

definition example_chunk_a :: DocumentChunk where
  "example_chunk_a =
     \<lparr>DocumentChunk.id = ''chunk-a'', org_id = ''org1'', document_id = ''doc-a'', chunk_no = 0,
      text' = ''  Payment is due within 30 days. '', page = Some 2, embedding = Some [1, 0]\<rparr>"

definition example_chunk_b :: DocumentChunk where
  "example_chunk_b =
     \<lparr>DocumentChunk.id = ''chunk-b'', org_id = ''org1'', document_id = ''doc-b'', chunk_no = 3,
      text' = ''Either party may terminate this agreement.'', page = None, embedding = Some [0, 1]\<rparr>"

definition example_result_a :: SearchResult where
  "example_result_a =
     \<lparr>chunk = example_chunk_a, SearchResult.similarity_score = b64 (9 / 10),
      document = Some \<lparr>Document.id = ''doc-a'', org_id = ''org1'', title = ''Contract A'', chunks = []\<rparr>,
      context_chunks = None\<rparr>"

definition example_result_b :: SearchResult where
  "example_result_b =
     \<lparr>chunk = example_chunk_b, SearchResult.similarity_score = b64 (8 / 10),
      document = None,
      context_chunks = Some [example_chunk_b]\<rparr>"

subsection \<open>An instance of the similarity library\<close>

text \<open>
  The library of the examples computes the cosine in binary64 arithmetic: the norm of
  a row is the square root of the sum of its squares, a row whose norm is not zero is
  divided by it, and the similarity of two rows is the sum of the products of the
  components of the two normalised rows, added from left to right.  \<open>fsqrt\<close> is the
  square root rounded to the nearest binary64 number, found from the integer square root
  of the argument scaled by the square of the unit in the last place; \<open>isqrt\<close> is
  Newton's iteration from a power of two above the root.  Matrices without
  rows, rows without components and rows of different lengths are refused.
\<close>

function isqrt_iter :: "int \<Rightarrow> int \<Rightarrow> int" where
  "isqrt_iter n x =
     (if 0 < x \<and> (x + n div x) div 2 < x then isqrt_iter n ((x + n div x) div 2) else x)"
  by pat_completeness auto
termination
  by (relation "measure (\<lambda>(n, x). nat x)") auto

definition isqrt :: "int \<Rightarrow> int" where
  "isqrt n = (if n \<le> 0 then 0 else isqrt_iter n (2 ^ nat ((bitlen n + 1) div 2)))"

definition fsqrt :: "rat \<Rightarrow> rat" where
  "fsqrt x =
     (if x \<le> 0 then 0
      else (let e = ilog2 x div 2;
                ulp = pow2 (e - 52);
                t = x / (ulp * ulp);
                m = isqrt \<lfloor>t\<rfloor>;
                h = (of_int m + 1 / 2) * (of_int m + 1 / 2)
            in of_int (if t < h then m else if h < t then m + 1 else if even m then m else m + 1) * ulp))"

definition example_dot :: "rat list \<Rightarrow> rat list \<Rightarrow> rat" where
  "example_dot x y = foldl fadd 0 (map2 fmul x y)"

definition example_normalize :: "rat list \<Rightarrow> rat list" where
  "example_normalize x = (let n = fsqrt (example_dot x x) in if n = 0 then x else map (\<lambda>v. fdiv v n) x)"

definition example_cosine :: "rat list \<Rightarrow> rat list \<Rightarrow> rat" where
  "example_cosine x y = example_dot (example_normalize x) (example_normalize y)"

definition example_cosine_similarity :: "rat list list \<Rightarrow> rat list list \<Rightarrow> py_error + rat list list" where
  "example_cosine_similarity xs ys =
     (if xs = [] \<or> ys = [] \<or> hd xs = [] \<or> (\<exists>r \<in> set (xs @ ys). length r \<noteq> length (hd xs))
      then Inl (ValueError ''Incompatible dimension for X and Y matrices'')
      else Inr (map (\<lambda>x. map (\<lambda>y. example_cosine x y) ys) xs))"

subsection \<open>Retrieval and compliance\<close>

definition example_rag_env :: rag_env where
  "example_rag_env =
     \<lparr>chunk_table = [example_chunk_a, example_chunk_b],
      document_table = [],
      generate_query_embedding = (\<lambda>q. Inr [3, 4]),
      cosine_distance = (\<lambda>x y. fsub 1 (example_cosine x y)),
      cosine_similarity = example_cosine_similarity,
      messages_create = (\<lambda>m s u. Inr [''The contract says so on page 2.'']),
      time_start = 10, time_end = 12,
      str_exc = (\<lambda>e. ''error'')\<rparr>"

definition example_embedded_chunk :: "string \<Rightarrow> rat list \<Rightarrow> DocumentChunk" where
  "example_embedded_chunk label e =
     \<lparr>DocumentChunk.id = label, org_id = ''org1'', document_id = ''doc-a'', chunk_no = 0,
      text' = ''The supplier shall indemnify the customer.'', page = Some 1, embedding = Some e\<rparr>"

text \<open>
  Three chunks with the embedding of the query \<open>[1, 0]\<close> and one at the cosine 0.8 from
  it, with the similarities that the search gives them.
\<close>

definition example_pool :: "(DocumentChunk \<times> rat) list" where
  "example_pool =
     [(example_embedded_chunk ''dup-1'' [1, 0], 1),
      (example_embedded_chunk ''dup-2'' [1, 0], 1),
      (example_embedded_chunk ''dup-3'' [1, 0], 1),
      (example_embedded_chunk ''distinct'' [4, 3], b64 (4 / 5))]"

text \<open>
  Three equal chunks at the cosine 0.8 from the query \<open>[4, 3]\<close> and one at the cosine
  0.6 from it that is orthogonal to them.
\<close>

definition example_pool_distinct :: "(DocumentChunk \<times> rat) list" where
  "example_pool_distinct =
     [(example_embedded_chunk ''dup-1'' [1, 0], b64 (4 / 5)),
      (example_embedded_chunk ''dup-2'' [1, 0], b64 (4 / 5)),
      (example_embedded_chunk ''dup-3'' [1, 0], b64 (4 / 5)),
      (example_embedded_chunk ''distinct'' [0, 1], b64 (3 / 5))]"

definition example_indemnity_rule :: ComplianceRule where
  "example_indemnity_rule =
     \<lparr>ComplianceRule.id = ''indemnity_clause'', name = ''Indemnity Clause'',
      description = JStr ''Ensures proper indemnification provisions are present'',
      clause_type = ''indemnity'', required = True, patterns = [''indemnify''],
      risk_weight = b64 (9 / 10),
      recommendations = [JStr ''Add mutual indemnity clause to protect both parties'']\<rparr>"

definition example_text_chunk :: "string \<Rightarrow> DocumentChunk" where
  "example_text_chunk t =
     \<lparr>DocumentChunk.id = ''chunk-1'', org_id = ''org1'', document_id = ''doc-a'', chunk_no = 0,
      text' = t, page = Some 1, embedding = None\<rparr>"

definition example_indemnity_text :: string where
  "example_indemnity_text =
     ''The supplier shall indemnify and hold harmless the customer. '' @
     ''Invoices are payable within thirty days of receipt, and late amounts bear interest '' @
     ''at the statutory rate. The customer will also indemnify the supplier.''"

definition no_other_patterns :: "string \<Rightarrow> py_error + (string \<Rightarrow> (nat \<times> nat) list)" where
  "no_other_patterns p = Inl ReError"

definition example_delivery_text :: string where
  "example_delivery_text = ''The supplier will deliver the goods within ten days.''"

definition example_lower_text :: string where
  "example_lower_text = ''the supplier shall indemnify the customer.''"


text \<open>A rule whose pattern ends in a dollar sign, and a document of two chunks.\<close>

definition example_harmless_rule :: ComplianceRule where
  "example_harmless_rule =
     \<lparr>ComplianceRule.id = ''hold_harmless'', name = ''Hold Harmless'',
      description = JStr '''', clause_type = ''indemnity'', required = True,
      patterns = [''harmless$''], risk_weight = b64 (9 / 10), recommendations = []\<rparr>"

definition example_harmless_chunks :: "DocumentChunk list" where
  "example_harmless_chunks =
     [\<lparr>DocumentChunk.id = ''chunk-1'', org_id = ''org1'', document_id = ''doc-a'', chunk_no = 0,
       text' = ''We hold harmless'', page = Some 1, embedding = None\<rparr>,
      \<lparr>DocumentChunk.id = ''chunk-2'', org_id = ''org1'', document_id = ''doc-a'', chunk_no = 1,
       text' = ''and more'', page = Some 1, embedding = None\<rparr>]"


definition example_result_with_risk :: "ComplianceStatus \<Rightarrow> bool \<Rightarrow> rat \<Rightarrow> ComplianceResult" where
  "example_result_with_risk st missing risk =
     \<lparr>rule_id = ''rule'', rule_name = ''Rule'', status = st, matched_clauses = [],
      missing_clause = missing, risk_score = risk, recommendations = []\<rparr>"

definition example_glob_playbook :: Playbook where
  "example_glob_playbook =
     \<lparr>Playbook.id = ''playbook-1'',
      rules_json =
        [(''version'', JStr ''1.0''),
         (''name'', JStr ''Standard Contract Playbook''),
         (''rules'',
          JArr [JObj [(''id'', JStr ''indemnity_clause''), (''name'', JStr ''Indemnity Clause''),
                      (''description'', JStr ''Ensures proper indemnification provisions are present''),
                      (''clause_type'', JStr ''indemnity''), (''required'', JBool True),
                      (''patterns'', JArr [JStr ''indemnify'']),
                      (''risk_weight'', JFloat (b64 (9 / 10))),
                      (''recommendations'',
                       JArr [JStr ''Add mutual indemnity clause to protect both parties''])],
                JObj [(''id'', JStr ''liability_cap''), (''name'', JStr ''Liability Limitation''),
                      (''clause_type'', JStr ''liability''), (''required'', JBool True),
                      (''patterns'', JArr [JStr ''*liability*'']),
                      (''risk_weight'', JFloat (b64 (8 / 10)))],
                JObj [(''id'', JStr ''termination_clause''), (''name'', JStr ''Termination Rights''),
                      (''clause_type'', JStr ''termination''), (''required'', JBool False),
                      (''patterns'', JArr [JStr ''terminate.*agreement'']),
                      (''risk_weight'', JFloat (b64 (7 / 10)))]])]\<rparr>"

definition example_compliance_env :: compliance_env where
  "example_compliance_env =
     \<lparr>get_document =
        (\<lambda>d org. if d = ''doc-a'' \<and> org = ''org1''
                  then Some \<lparr>Document.id = ''doc-a'', org_id = ''org1'', title = ''Contract A'', chunks = []\<rparr>
                  else None),
      get_playbook = (\<lambda>p org. None),
      get_default_playbook = (\<lambda>org. if org = ''org1'' then Some example_glob_playbook else None),
      get_chunks_by_document = (\<lambda>d org. [example_text_chunk example_lower_text]),
      re_other = no_other_patterns,
      utcnow = ''2024-01-01T00:00:00''\<rparr>"

definition example_liability_rule :: ComplianceRule where
  "example_liability_rule =
     \<lparr>ComplianceRule.id = ''liability_cap'', name = ''Liability Limitation'',
      description = JStr '''', clause_type = ''liability'', required = True,
      patterns = [''*liability*''], risk_weight = b64 (8 / 10), recommendations = []\<rparr>"

definition example_termination_rule :: ComplianceRule where
  "example_termination_rule =
     \<lparr>ComplianceRule.id = ''termination_clause'', name = ''Termination Rights'',
      description = JStr '''', clause_type = ''termination'', required = False,
      patterns = [''terminate.*agreement''], risk_weight = b64 (7 / 10), recommendations = []\<rparr>"

section \<open>Properties of the document comparison\<close>

text \<open>
  C9 (as the code has it).  The similarity score of a comparison depends on the number of
  text changes only: no change gives 1.0, one to nine changes give 0.9, ten to forty-nine
  give 0.7, fifty to ninety-nine give 0.5, and a hundred or more give 0.3.
\<close>

theorem similarity_score_buckets:
  "calculate_similarity_score cs =
     (let n = length cs
      in if n = 0 then b64 1
         else if n < 10 then b64 (9 / 10)
         else if n < 50 then b64 (7 / 10)
         else if n < 100 then b64 (5 / 10)
         else b64 (3 / 10))"
  by (simp add: calculate_similarity_score_def Let_def)

theorem similarity_score_buckets_witness:
  "calculate_similarity_score
     (replicate 12 \<lparr>TextChange.change_type = ADDED, text' = ''x'', line_number = Some 1,
                    page_number = None, confidence = 1\<rparr>) = b64 (7 / 10)"
  using similarity_score_buckets
    [of "replicate 12 \<lparr>TextChange.change_type = ADDED, text' = ''x'', line_number = Some 1,
                       page_number = None, confidence = 1\<rparr>"]
  by simp

text \<open>
  C9 as stated fails for two documents without any difference: the list of changes is
  empty, which is fewer than ten changes, and the score is 1.0, not 0.9.
\<close>

theorem similarity_score_no_change_counterexample:
  "length ([] :: TextChange list) < 10 \<and>
   calculate_similarity_score [] = 1 \<and>
   calculate_similarity_score [] \<noteq> b64 (9 / 10)"
  unfolding calculate_similarity_score_def by code_simp

text \<open>
  C8 fails in the code, because no comparison is ever stored.  The lookup itself does
  not depend on the order of the two documents.  But \<^verbatim>\<open>compare_documents\<close> never changes
  the table: when the lookup finds no row, the call ends in an exception (at the latest
  the \<^verbatim>\<open>TypeError\<close> of \<^verbatim>\<open>self.comparison_repo.create(comparison_data, org_id)\<close>), and
  nothing has been written.  So after a call for \<open>(B, A)\<close> that found no stored
  comparison, the call for \<open>(A, B)\<close> finds none either and ends in an exception as well,
  instead of returning a stored result.
\<close>

theorem compare_documents_never_stores:
  "get_by_documents table a b org = get_by_documents table b a org \<and>
   snd (compare_documents env table a b org user) = table \<and>
   (get_by_documents table a b org = Inr None \<longrightarrow>
      isl (fst (compare_documents env table a b org user))) \<and>
   (get_by_documents table b a org = Inr None \<longrightarrow>
      isl (fst (compare_documents env (snd (compare_documents env table b a org user)) a b org user)))"
proof -
  have swap: "get_by_documents table a b org = get_by_documents table b a org"
    unfolding get_by_documents_def by (rule arg_cong [where f = scalar_one_or_none]) (metis (lifting))
  have unchanged: "\<And>x y. snd (compare_documents env table x y org user) = table"
    by (simp add: compare_documents_def Let_def split: sum.splits option.splits)
  have raises: "\<And>x y. get_by_documents table x y org = Inr None \<Longrightarrow>
                  isl (fst (compare_documents env table x y org user))"
    by (simp add: compare_documents_def Let_def split: option.splits)
  show ?thesis
    using swap unchanged raises by simp
qed

theorem compare_documents_never_stores_witness:
  "get_by_documents [example_comparison_row] ''doc-b'' ''doc-c'' example_org
     = Inr (Some example_comparison_row) \<and>
   get_by_documents [example_comparison_row] ''doc-b'' ''doc-a'' example_org = Inr None \<and>
   compare_documents example_compare_env [example_comparison_row] ''doc-b'' ''doc-a'' example_org ''user1''
     = (Inl TypeError, [example_comparison_row]) \<and>
   compare_documents example_compare_env [example_comparison_row] ''doc-a'' ''doc-b'' example_org ''user1''
     = (Inl TypeError, [example_comparison_row])"
proof -
  have stored: "get_by_documents [example_comparison_row] ''doc-b'' ''doc-c'' example_org
     = Inr (Some example_comparison_row)"
    by (simp add: get_by_documents_def visible_rows_def example_comparison_row_def)
  have miss: "get_by_documents [example_comparison_row] ''doc-b'' ''doc-a'' example_org = Inr None"
    by (simp add: get_by_documents_def visible_rows_def example_comparison_row_def)
  have first: "fst (compare_documents example_compare_env [example_comparison_row]
                     ''doc-b'' ''doc-a'' example_org ''user1'') = Inl TypeError"
    by (simp add: compare_documents_def miss example_compare_env_def store_comparison_result_def)
  note inst = compare_documents_never_stores
    [of "[example_comparison_row]" "''doc-a''" "''doc-b''" example_org example_compare_env "''user1''"]
  from inst miss have miss': "get_by_documents [example_comparison_row] ''doc-a'' ''doc-b'' example_org = Inr None"
    by simp
  have second: "fst (compare_documents example_compare_env [example_comparison_row]
                      ''doc-a'' ''doc-b'' example_org ''user1'') = Inl TypeError"
    by (simp add: compare_documents_def miss' example_compare_env_def store_comparison_result_def)
  have unchanged: "snd (compare_documents example_compare_env [example_comparison_row]
                          ''doc-a'' ''doc-b'' example_org ''user1'') = [example_comparison_row]"
    using inst by blast
  have unchanged': "snd (compare_documents example_compare_env [example_comparison_row]
                          ''doc-b'' ''doc-a'' example_org ''user1'') = [example_comparison_row]"
    using compare_documents_never_stores
      [of "[example_comparison_row]" "''doc-b''" "''doc-a''" example_org example_compare_env "''user1''"]
    by blast
  show ?thesis
    using stored miss first second unchanged unchanged' by (simp add: prod_eq_iff)
qed

section \<open>Properties of the retrieval\<close>

lemma section_text_pos: "0 < length (section_text r)"
  by (simp add: section_text_def Let_def)

lemma context_loop_prefix:
  "cur + (\<Sum>r\<leftarrow>pre. int (length (section_text r))) \<le> mx \<Longrightarrow>
   context_loop acc cur mx (pre @ rest) =
     context_loop (acc @ map section_text pre) (cur + (\<Sum>r\<leftarrow>pre. int (length (section_text r)))) mx rest"
proof (induction pre arbitrary: acc cur)
  case Nil
  then show ?case by simp
next
  case (Cons r pre)
  have nonneg: "0 \<le> (\<Sum>r\<leftarrow>pre. int (length (section_text r)))"
    by (rule sum_list_nonneg) auto
  with Cons.prems have fits: "cur + int (length (section_text r)) \<le> mx"
    by simp
  from Cons.prems
  have rest_fits: "cur + int (length (section_text r)) + (\<Sum>r\<leftarrow>pre. int (length (section_text r))) \<le> mx"
    by simp
  show ?case
    using fits Cons.IH [OF rest_fits] by (simp add: Let_def add.assoc)
qed

lemma section_sum_pos:
  "pre \<noteq> [] \<Longrightarrow> 0 < (\<Sum>r\<leftarrow>pre. int (length (section_text r)))"
proof (induction pre)
  case Nil
  then show ?case by simp
next
  case (Cons r pre)
  have "0 \<le> (\<Sum>r\<leftarrow>pre. int (length (section_text r)))"
    by (rule sum_list_nonneg) auto
  moreover have "0 < int (length (section_text r))"
    using section_text_pos [of r] by simp
  ultimately have "0 < int (length (section_text r)) + (\<Sum>r\<leftarrow>pre. int (length (section_text r)))"
    by linarith
  then show ?case by (simp only: list.map sum_list.Cons)
qed

lemma chunks_to_include_sorted: "sorted (map chunk_no (chunks_to_include r))"
  by (simp add: chunks_to_include_def split: option.splits)

text \<open>
  C5 (as the code has it).  Each result gives one section: a header naming the source
  document, then the context chunks by rising chunk number (the chunk itself when there
  are none).  The sections are joined in the order of the results for as long as the sum
  of their lengths stays within \<open>max_length\<close>.  At the first section that would exceed it
  the assembly stops: when it is the first section of all, it is cut to
  \<open>max_length - 100\<close> characters and followed by the notice \<^verbatim>\<open>[... truncated ...]\<close>;
  otherwise this section and all later ones are left out.
\<close>

theorem context_window_assembly:
  "sorted (map chunk_no (chunks_to_include r)) \<and>
   ((\<Sum>x\<leftarrow>results. int (length (section_text x))) \<le> mx \<longrightarrow>
      get_context_window results mx = py_join [CHR 0x0A] (map section_text results)) \<and>
   (pre \<noteq> [] \<and> (\<Sum>x\<leftarrow>pre. int (length (section_text x))) \<le> mx \<and>
    (\<Sum>x\<leftarrow>pre. int (length (section_text x))) + int (length (section_text r)) > mx \<longrightarrow>
      get_context_window (pre @ r # post) mx = py_join [CHR 0x0A] (map section_text pre)) \<and>
   (int (length (section_text r)) > mx \<longrightarrow>
      get_context_window (r # post) mx
        = py_slice_to (section_text r) (mx - 100) @ truncation_notice)"
proof (intro conjI impI)
  show "sorted (map chunk_no (chunks_to_include r))"
    by (rule chunks_to_include_sorted)
next
  assume "(\<Sum>x\<leftarrow>results. int (length (section_text x))) \<le> mx"
  then show "get_context_window results mx = py_join [CHR 0x0A] (map section_text results)"
    using context_loop_prefix [of 0 results mx "[]" "[]"]
    by (simp add: get_context_window_def)
next
  assume h: "pre \<noteq> [] \<and> (\<Sum>x\<leftarrow>pre. int (length (section_text x))) \<le> mx \<and>
    (\<Sum>x\<leftarrow>pre. int (length (section_text x))) + int (length (section_text r)) > mx"
  then have "0 < (\<Sum>x\<leftarrow>pre. int (length (section_text x)))"
    using section_sum_pos by blast
  with h show "get_context_window (pre @ r # post) mx = py_join [CHR 0x0A] (map section_text pre)"
    using context_loop_prefix [of 0 pre mx "[]" "r # post"]
    by (simp add: get_context_window_def Let_def)
next
  assume "int (length (section_text r)) > mx"
  then show "get_context_window (r # post) mx
        = py_slice_to (section_text r) (mx - 100) @ truncation_notice"
    by (simp add: get_context_window_def Let_def)
qed

lemma example_lengths:
  "length (section_text example_result_a) = 66" "length (section_text example_result_b) = 75"
  by code_simp+

theorem context_window_assembly_witness:
  "get_context_window [example_result_a, example_result_b] 200
     = section_text example_result_a @ [CHR 0x0A] @ section_text example_result_b \<and>
   get_context_window [example_result_a, example_result_b] 100 = section_text example_result_a \<and>
   get_context_window [example_result_a, example_result_b] 50
     = py_slice_to (section_text example_result_a) (- 50) @ truncation_notice"
  using context_window_assembly [of example_result_b "[example_result_a, example_result_b]" 200 "[]" "[]"]
        context_window_assembly [of example_result_b "[]" 100 "[example_result_a]" "[]"]
        context_window_assembly [of example_result_a "[]" 50 "[]" "[example_result_b]"]
  by (simp add: example_lengths)

text \<open>
  C5 as stated fails when a later section is the one that overflows: with a limit of 100
  characters, a first section of 66 and a second of 75, the context is the first section
  alone; the second is left out, not truncated, and no notice is written.
\<close>

theorem context_window_overflow_counterexample:
  "int (length (section_text example_result_a)) \<le> 100 \<and>
   int (length (section_text example_result_a)) + int (length (section_text example_result_b)) > 100 \<and>
   get_context_window [example_result_a, example_result_b] 100 = section_text example_result_a \<and>
   \<not> py_in ''truncated'' (get_context_window [example_result_a, example_result_b] 100)"
  by code_simp

lemma similarity_search_empty:
  assumes "0 \<le> limit"
    and "\<forall>c \<in> set (chunk_table env).
           DocumentChunk.org_id c = org \<and> embedding c \<noteq> None \<longrightarrow> \<not> chunk_similarity env qe c > thr"
  shows "similarity_search env qe org document_ids limit thr = Inr []"
proof -
  have "filter
          (\<lambda>c. DocumentChunk.org_id c = org \<and> embedding c \<noteq> None \<and>
               chunk_similarity env qe c > thr \<and>
               (case document_ids of
                  None \<Rightarrow> True
                | Some ids \<Rightarrow> ids = [] \<or> DocumentChunk.document_id c \<in> set ids))
          (chunk_table env) = []"
    using assms(2) by (auto simp: filter_empty_conv)
  then show ?thesis
    using assms(1) by (simp add: similarity_search_def sort_desc_def)
qed

text \<open>
  C4.  When the semantic search returns no result, the query answers with the fixed text
  \<open>no_results_answer\<close>, no citation, confidence 0.0 and the model name \<^verbatim>\<open>none\<close>, and the
  list of calls to the language model is as before.  The search returns no result when
  the query was embedded and no chunk of the organisation has a similarity above the
  threshold; in particular when the organisation has no chunk at all.
\<close>

theorem query_without_results:
  "(search env q org document_ids max_results thr True 2 = Inr [] \<longrightarrow>
      query env calls q org plan document_ids max_results thr max_context_length
        = (\<lparr>answer = no_results_answer, citations = [], confidence = 0, model_used = ''none'',
            processing_time = fsub (time_end env) (time_start env), context_used = ''''\<rparr>,
           calls)) \<and>
   (generate_query_embedding env q = Inr qe \<and> 0 \<le> max_results \<and>
    (\<forall>c \<in> set (chunk_table env).
        DocumentChunk.org_id c = org \<and> embedding c \<noteq> None \<longrightarrow> \<not> chunk_similarity env qe c > thr) \<longrightarrow>
      search env q org document_ids max_results thr True 2 = Inr [])"
proof (intro conjI impI)
  assume "search env q org document_ids max_results thr True 2 = Inr []"
  then show "query env calls q org plan document_ids max_results thr max_context_length
        = (\<lparr>answer = no_results_answer, citations = [], confidence = 0, model_used = ''none'',
            processing_time = fsub (time_end env) (time_start env), context_used = ''''\<rparr>,
           calls)"
    by (simp add: query_def)
next
  assume h: "generate_query_embedding env q = Inr qe \<and> 0 \<le> max_results \<and>
    (\<forall>c \<in> set (chunk_table env).
        DocumentChunk.org_id c = org \<and> embedding c \<noteq> None \<longrightarrow> \<not> chunk_similarity env qe c > thr)"
  then have "similarity_search env qe org document_ids (max_results * 2) thr = Inr []"
    by (intro similarity_search_empty) auto
  with h show "search env q org document_ids max_results thr True 2 = Inr []"
    by (simp add: search_def)
qed

lemma example_similarities:
  "\<not> chunk_similarity example_rag_env [3, 4] example_chunk_a > b64 (9 / 10)"
  "\<not> chunk_similarity example_rag_env [3, 4] example_chunk_b > b64 (9 / 10)"
  "fsub 12 10 = 2"
  by code_simp+

theorem query_without_results_witness:
  "search example_rag_env ''What is the notice period?'' ''org1'' None 10 (b64 (9 / 10)) True 2 = Inr [] \<and>
   query example_rag_env [] ''What is the notice period?'' ''org1'' ''pro'' None 10 (b64 (9 / 10)) 4000
     = (\<lparr>answer = no_results_answer, citations = [], confidence = 0, model_used = ''none'',
         processing_time = 2, context_used = ''''\<rparr>, [])"
proof -
  have embedded: "generate_query_embedding example_rag_env ''What is the notice period?'' = Inr [3, 4]"
    by (simp add: example_rag_env_def)
  have table: "chunk_table example_rag_env = [example_chunk_a, example_chunk_b]"
    by (simp add: example_rag_env_def)
  have below: "\<forall>c \<in> set (chunk_table example_rag_env).
        DocumentChunk.org_id c = ''org1'' \<and> embedding c \<noteq> None \<longrightarrow>
        \<not> chunk_similarity example_rag_env [3, 4] c > b64 (9 / 10)"
    unfolding table using example_similarities(1,2) by simp
  have clock: "fsub (time_end example_rag_env) (time_start example_rag_env) = 2"
    using example_similarities(3) by (simp add: example_rag_env_def)
  show ?thesis
    using embedded below clock
      query_without_results
        [of example_rag_env "''What is the notice period?''" "''org1''" None 10 "b64 (9 / 10)" "[]" "''pro''"
            4000 "[3, 4]"]
    by simp
qed

lemma pow2_powi: "pow2 e = 2 powi e"
  by (simp add: pow2_def power_int_def field_simps)

lemma pow2_pos: "0 < pow2 e"
  by (simp add: pow2_def)

lemma pow2_mono: "a \<le> b \<Longrightarrow> pow2 a \<le> pow2 b"
  unfolding pow2_powi by (rule power_int_increasing) simp_all

lemma round_half_even_error: "\<bar>of_int (round_half_even y) - y\<bar> \<le> 1 / 2"
proof -
  have "of_int \<lfloor>y\<rfloor> \<le> y" "y < of_int \<lfloor>y\<rfloor> + 1"
    by linarith+
  then show ?thesis
    by (auto simp: round_half_even_def Let_def)
qed

lemma ilog2_le:
  assumes "0 < y"
  shows "pow2 (ilog2 y) \<le> y"
proof -
  obtain p q where pq: "quotient_of y = (p, q)"
    by (cases "quotient_of y")
  have q: "0 < q"
    using pq by (rule quotient_of_denom_pos)
  have y: "y = of_int p / of_int q"
    using pq by (rule quotient_of_div)
  have p: "0 < p"
    using assms q unfolding y by (simp add: zero_less_divide_iff)
  define k where "k = bitlen p - bitlen q"
  show ?thesis
  proof (cases "pow2 k \<le> y")
    case True
    then show ?thesis
      by (simp add: ilog2_def pq k_def Let_def)
  next
    case False
    have bp: "(2 :: int) ^ nat (bitlen p - 1) \<le> p" and bq: "q < 2 ^ nat (bitlen q)"
      using bitlen_bounds [OF p] bitlen_bounds [OF q] by simp_all
    have bp1: "1 \<le> bitlen p" and bq1: "1 \<le> bitlen q"
      using p q by (simp_all add: bitlen_ge_iff_power)
    have "(2 :: rat) powi (bitlen p - 1) = of_int (2 ^ nat (bitlen p - 1))"
      using bp1 by (simp add: power_int_def)
    also have "\<dots> \<le> of_int p"
      using bp by (simp only: of_int_le_iff)
    finally have num: "(2 :: rat) powi (bitlen p - 1) \<le> of_int p" .
    have "of_int q \<le> (of_int (2 ^ nat (bitlen q)) :: rat)"
      using bq by (simp only: of_int_le_iff)
    also have "\<dots> = 2 powi (bitlen q)"
      using bq1 by (simp add: power_int_def)
    finally have den: "of_int q \<le> (2 :: rat) powi (bitlen q)" .
    have "(2 :: rat) powi (k - 1) = 2 powi (bitlen p - 1) / 2 powi (bitlen q)"
      unfolding k_def using power_int_diff [of "2 :: rat" "bitlen p - 1" "bitlen q"]
      by (simp add: algebra_simps)
    also have "\<dots> \<le> of_int p / of_int q"
      using num den q p by (intro frac_le) simp_all
    finally have "pow2 (k - 1) \<le> y"
      unfolding pow2_powi y .
    with False show ?thesis
      by (simp add: ilog2_def pq k_def Let_def)
  qed
qed

text \<open>The rounding error of a number of magnitude up to 4 is at most half a unit in the last place.\<close>

lemma b64_error:
  assumes "\<bar>x\<bar> \<le> 4"
  shows "\<bar>b64 x - x\<bar> \<le> 1 / 2 ^ 51"
proof (cases "x = 0")
  case True
  then show ?thesis by (simp add: b64_def)
next
  case False
  define e where "e = max (ilog2 \<bar>x\<bar>) (- 1022)"
  define u where "u = pow2 (e - 52)"
  have u_pos: "0 < u"
    unfolding u_def by (rule pow2_pos)
  have "ilog2 \<bar>x\<bar> \<le> 2"
  proof (rule ccontr)
    assume "\<not> ilog2 \<bar>x\<bar> \<le> 2"
    then have "pow2 3 \<le> pow2 (ilog2 \<bar>x\<bar>)"
      by (intro pow2_mono) simp
    also have "\<dots> \<le> \<bar>x\<bar>"
      using False by (intro ilog2_le) simp
    finally show False
      using assms by (simp add: pow2_def)
  qed
  then have "e \<le> 2"
    by (simp add: e_def)
  then have "u \<le> pow2 (- 50)"
    unfolding u_def by (intro pow2_mono) simp
  then have u_le: "u \<le> 1 / 2 ^ 50"
    by (simp add: pow2_def)
  have b: "b64 x = of_int (round_half_even (x / u)) * u"
    using False by (simp add: b64_def Let_def e_def u_def)
  have "b64 x - x = (of_int (round_half_even (x / u)) - x / u) * u"
    using u_pos by (simp add: b algebra_simps)
  then have "\<bar>b64 x - x\<bar> = \<bar>of_int (round_half_even (x / u)) - x / u\<bar> * u"
    using u_pos by (simp add: abs_mult)
  also have "\<dots> \<le> 1 / 2 * u"
    using round_half_even_error [of "x / u"] u_pos by (intro mult_right_mono) simp_all
  also have "\<dots> \<le> 1 / 2 * (1 / 2 ^ 50)"
    using u_le by simp
  finally show ?thesis
    by simp
qed

lemma abs_mult_le:
  fixes a b :: rat
  assumes "\<bar>a\<bar> \<le> c" "\<bar>b\<bar> \<le> d"
  shows "\<bar>a * b\<bar> \<le> c * d"
proof -
  have "0 \<le> c"
    using assms(1) by linarith
  then show ?thesis
    unfolding abs_mult using assms by (intro mult_mono) simp_all
qed

lemma lambda_constants:
  "\<bar>b64 (7 / 10) - 7 / 10\<bar> \<le> 1 / 2 ^ 51" "\<bar>fsub 1 (b64 (7 / 10)) - 3 / 10\<bar> \<le> 1 / 2 ^ 51"
  "\<bar>b64 (7 / 10)\<bar> \<le> 3 / 4" "\<bar>fsub 1 (b64 (7 / 10))\<bar> \<le> 1 / 2"
  by code_simp+

text \<open>
  The score that the code computes from a relevance and a similarity of magnitude up to
  2 differs from \<open>0.7 \<cdot> relevance - 0.3 \<cdot> similarity\<close> by at most \<open>7 / 2 ^ 51\<close>: three
  roundings, and the distances of the constants from 0.7 and 0.3.
\<close>

lemma mmr_score_error:
  assumes r: "\<bar>r\<bar> \<le> 2" and s: "\<bar>s\<bar> \<le> 2"
  shows "\<bar>fsub (fmul (b64 (7 / 10)) r) (fmul (fsub 1 (b64 (7 / 10))) s) - (7 / 10 * r - 3 / 10 * s)\<bar>
           \<le> 7 / 2 ^ 51"
proof -
  define L where "L = b64 (7 / 10)"
  define M where "M = fsub 1 (b64 (7 / 10))"
  define A where "A = fmul L r"
  define B where "B = fmul M s"
  note c = lambda_constants [folded L_def M_def]
  have Lr: "\<bar>L * r\<bar> \<le> 3 / 4 * 2"
    using c(3) r by (rule abs_mult_le)
  have Ms: "\<bar>M * s\<bar> \<le> 1 / 2 * 2"
    using c(4) s by (rule abs_mult_le)
  have eA: "\<bar>A - L * r\<bar> \<le> 1 / 2 ^ 51"
    unfolding A_def fmul_def using Lr by (intro b64_error) simp
  have eB: "\<bar>B - M * s\<bar> \<le> 1 / 2 ^ 51"
    unfolding B_def fmul_def using Ms by (intro b64_error) simp
  have "\<bar>A - B\<bar> \<le> \<bar>A - L * r\<bar> + \<bar>L * r\<bar> + \<bar>B - M * s\<bar> + \<bar>M * s\<bar>"
    by linarith
  also have "\<dots> \<le> 4"
    using eA eB Lr Ms by simp
  finally have eS: "\<bar>fsub A B - (A - B)\<bar> \<le> 1 / 2 ^ 51"
    unfolding fsub_def by (rule b64_error)
  have "\<bar>(L - 7 / 10) * r\<bar> \<le> 1 / 2 ^ 51 * 2"
    using c(1) r by (rule abs_mult_le)
  then have eL: "\<bar>L * r - 7 / 10 * r\<bar> \<le> 2 / 2 ^ 51"
    by (simp add: algebra_simps)
  have "\<bar>(M - 3 / 10) * s\<bar> \<le> 1 / 2 ^ 51 * 2"
    using c(2) s by (rule abs_mult_le)
  then have eM: "\<bar>M * s - 3 / 10 * s\<bar> \<le> 2 / 2 ^ 51"
    by (simp add: algebra_simps)
  have "\<bar>fsub A B - (7 / 10 * r - 3 / 10 * s)\<bar>
          \<le> \<bar>fsub A B - (A - B)\<bar> + \<bar>A - L * r\<bar> + \<bar>B - M * s\<bar>
            + \<bar>L * r - 7 / 10 * r\<bar> + \<bar>M * s - 3 / 10 * s\<bar>"
    by linarith
  also have "\<dots> \<le> 7 / 2 ^ 51"
    using eS eA eB eL eM by simp
  finally show ?thesis
    unfolding A_def B_def L_def M_def .
qed

lemma mmr_score_margin:
  assumes "\<bar>r1\<bar> \<le> 2" "\<bar>s1\<bar> \<le> 2" "\<bar>r2\<bar> \<le> 2" "\<bar>s2\<bar> \<le> 2"
    and "7 / 10 * (r1 - r2) + 1 / 10 ^ 14 \<le> 3 / 10 * (s1 - s2)"
  shows "fsub (fmul (b64 (7 / 10)) r1) (fmul (fsub 1 (b64 (7 / 10))) s1)
           < fsub (fmul (b64 (7 / 10)) r2) (fmul (fsub 1 (b64 (7 / 10))) s2)"
proof -
  have e1: "\<bar>fsub (fmul (b64 (7 / 10)) r1) (fmul (fsub 1 (b64 (7 / 10))) s1) - (7 / 10 * r1 - 3 / 10 * s1)\<bar>
           \<le> 7 / 2 ^ 51"
    using assms(1,2) by (rule mmr_score_error)
  have e2: "\<bar>fsub (fmul (b64 (7 / 10)) r2) (fmul (fsub 1 (b64 (7 / 10))) s2) - (7 / 10 * r2 - 3 / 10 * s2)\<bar>
           \<le> 7 / 2 ^ 51"
    using assms(3,4) by (rule mmr_score_error)
  have small: "(14 :: rat) / 2 ^ 51 < 1 / 10 ^ 14"
    by simp
  have "7 / 10 * r1 - 7 / 10 * r2 + 1 / 10 ^ 14 \<le> 3 / 10 * s1 - 3 / 10 * s2"
    using assms(5) by (simp only: right_diff_distrib)
  with e1 e2 small show ?thesis
    by linarith
qed

lemma py_max_from_unique:
  assumes "x \<in> set (best # xs)"
    and "\<forall>y \<in> set (best # xs). y \<noteq> x \<longrightarrow> key y < key x"
  shows "py_max_from key best xs = x"
  using assms
proof (induction xs arbitrary: best)
  case Nil
  then show ?case by simp
next
  case (Cons y ys)
  let ?b = "if key y > key best then y else best"
  have mem: "x \<in> set (?b # ys)"
    using Cons.prems by (cases "y = x") auto
  have dom: "\<forall>z \<in> set (?b # ys). z \<noteq> x \<longrightarrow> key z < key x"
    using Cons.prems by auto
  show ?case
    using Cons.IH [OF mem dom] by simp
qed

lemma py_max_by_unique:
  assumes "x \<in> set xs" and "\<forall>y \<in> set xs. y \<noteq> x \<longrightarrow> key y < key x"
  shows "py_max_by key xs = x"
proof (cases xs)
  case Nil
  with assms show ?thesis by simp
next
  case (Cons b bs)
  with assms show ?thesis
    using py_max_from_unique [of x b bs key] by (simp add: py_max_by_def)
qed

lemma mmr_scores_first:
  assumes "\<forall>c \<in> set remaining.
             cosine_similarity env [q] [vs ! c] = Inr [[rel c]] \<and>
             cosine_similarity env [vs ! c] [vs ! first] = Inr [[sim c]]"
  shows "mmr_scores env q vs l [first] remaining
           = Inr (map (\<lambda>c. (c, fsub (fmul l (rel c)) (fmul (fsub 1 l) (sim c)))) remaining)"
  using assms by (induction remaining) (simp_all add: mmr_score_def py_first_def)

lemma mmr_score_returns:
  assumes lib: "\<forall>xs ys. xs \<noteq> [] \<and> ys \<noteq> [] \<and> (\<forall>x \<in> set xs. length x = n) \<and> (\<forall>y \<in> set ys. length y = n) \<longrightarrow>
             (\<exists>k. cosine_similarity env xs ys = Inr k \<and> length k = length xs \<and>
                  (\<forall>row \<in> set k. length row = length ys))"
    and q: "length q = n" and idx: "length (vs ! idx) = n" and sel: "\<forall>s \<in> set sel. length (vs ! s) = n"
  shows "\<exists>score. mmr_score env q vs l sel idx = Inr score"
proof -
  obtain k where k: "cosine_similarity env [q] [vs ! idx] = Inr k" "length k = 1"
      "\<forall>row \<in> set k. length row = 1"
    using lib [rule_format, of "[q]" "[vs ! idx]"] q idx by auto
  then obtain r where k_eq: "k = [[r]]"
    by (cases k; cases "hd k"; cases "tl (hd k)") auto
  show ?thesis
  proof (cases "sel = []")
    case True
    then show ?thesis
      by (simp add: mmr_score_def k(1) k_eq py_first_def)
  next
    case False
    then obtain k' where k': "cosine_similarity env [vs ! idx] (map (\<lambda>s. vs ! s) sel) = Inr k'"
        "length k' = 1" "\<forall>row \<in> set k'. length row = length sel"
      using lib [rule_format, of "[vs ! idx]" "map (\<lambda>s. vs ! s) sel"] idx sel by auto
    then obtain row where row: "k' = [row]" "length row = length sel"
      by (cases k'; cases "tl k'") auto
    with False obtain x xs where "row = x # xs"
      by (cases row) auto
    with row show ?thesis
      by (simp add: mmr_score_def k(1) k_eq k'(1) py_first_def False)
  qed
qed

lemma mmr_scores_returns:
  assumes lib: "\<forall>xs ys. xs \<noteq> [] \<and> ys \<noteq> [] \<and> (\<forall>x \<in> set xs. length x = n) \<and> (\<forall>y \<in> set ys. length y = n) \<longrightarrow>
             (\<exists>k. cosine_similarity env xs ys = Inr k \<and> length k = length xs \<and>
                  (\<forall>row \<in> set k. length row = length ys))"
    and q: "length q = n" and sel: "\<forall>s \<in> set sel. length (vs ! s) = n"
    and remaining: "\<forall>i \<in> set remaining. length (vs ! i) = n"
  shows "\<exists>scores. mmr_scores env q vs l sel remaining = Inr scores"
  using remaining
proof (induction remaining)
  case Nil
  show ?case by simp
next
  case (Cons i rest)
  then have "length (vs ! i) = n"
    by simp
  then obtain score where "mmr_score env q vs l sel i = Inr score"
    using mmr_score_returns [OF lib q _ sel, where l = l and idx = i] by blast
  moreover obtain scores where "mmr_scores env q vs l sel rest = Inr scores"
    using Cons by auto
  ultimately show ?case by simp
qed

lemma mmr_loop_extends:
  "\<forall>xs ys. xs \<noteq> [] \<and> ys \<noteq> [] \<and>
      (\<forall>x \<in> set xs. length x = length q) \<and> (\<forall>y \<in> set ys. length y = length q) \<longrightarrow>
    (\<exists>k. cosine_similarity env xs ys = Inr k \<and> length k = length xs \<and>
         (\<forall>row \<in> set k. length row = length ys)) \<Longrightarrow>
   \<forall>s \<in> set sel. length (vs ! s) = length q \<Longrightarrow>
   \<forall>i \<in> set remaining. length (vs ! i) = length q \<Longrightarrow>
   \<exists>others. mmr_loop env q vs k l sel remaining = Inr (sel @ others)"
proof (induction env q vs k l sel remaining rule: mmr_loop.induct)
  case (1 env q vs k l sel remaining)
  note lib = "1.prems"(1)
  show ?case
  proof (cases "int (length sel) < k \<and> remaining \<noteq> []")
    case False
    then show ?thesis
      by (subst mmr_loop.simps) auto
  next
    case True
    obtain scores where scores: "mmr_scores env q vs l sel remaining = Inr scores"
      using mmr_scores_returns [OF lib refl "1.prems"(2) "1.prems"(3), where l = l] by blast
    define best where "best = fst (py_max_by snd scores)"
    have best_in: "best \<in> set remaining"
      unfolding best_def using True scores by (intro mmr_best_in_remaining) auto
    have sel': "\<forall>s \<in> set (sel @ [best]). length (vs ! s) = length q"
      using "1.prems"(2,3) best_in by auto
    have rem': "\<forall>i \<in> set (remove1 best remaining). length (vs ! i) = length q"
      using "1.prems"(3) set_remove1_subset [of best remaining] by auto
    obtain others where "mmr_loop env q vs k l (sel @ [best]) (remove1 best remaining)
                           = Inr ((sel @ [best]) @ others)"
      using "1.IH" [OF True scores best_def lib sel' rem'] by blast
    then show ?thesis
      using True scores by (subst mmr_loop.simps) (simp add: best_def Let_def)
  qed
qed

text \<open>
  C3 (as the code has it).  The pool is larger than the limit, the limit is at least 2,
  and the library returns a matrix for matrices of rows of the length of the query.
  \<open>rel c\<close> is the similarity that the library returns for the query and candidate \<open>c\<close>,
  \<open>sim c\<close> the one for \<open>c\<close> and the first candidate of the pool, which the reranking
  always selects first; they are at most 2 in absolute value (a cosine is at most 1, up
  to rounding).  Every candidate but \<open>d\<close> is a near-duplicate of the first: its \<open>sim\<close> is
  above 0.95.  When moreover the relevance of the near-duplicates exceeds that of \<open>d\<close> by
  so little that \<open>0.7 \<cdot> (rel c - rel d) + 1e-14 \<le> 0.3 \<cdot> (0.95 - sim d)\<close>, where \<open>1e-14\<close>
  covers the rounding of the scores, the reranking with \<open>\<lambda> = 0.7\<close> selects \<open>d\<close> second,
  ahead of every remaining near-duplicate.
\<close>

theorem mmr_selects_distinct_chunk:
  fixes pool :: "(DocumentChunk \<times> rat) list" and q :: "rat list" and limit :: int and d :: nat
    and rel sim :: "nat \<Rightarrow> rat"
  assumes big: "int (length pool) > limit" and lim2: "2 \<le> limit"
    and dims: "\<forall>v \<in> set (chunk_embeddings pool q). length v = length q"
    and lib: "\<forall>xs ys. xs \<noteq> [] \<and> ys \<noteq> [] \<and>
                 (\<forall>x \<in> set xs. length x = length q) \<and> (\<forall>y \<in> set ys. length y = length q) \<longrightarrow>
               (\<exists>k. cosine_similarity env xs ys = Inr k \<and> length k = length xs \<and>
                    (\<forall>row \<in> set k. length row = length ys))"
    and d: "0 < d" "d < length pool"
    and vals: "\<forall>c. 0 < c \<and> c < length pool \<longrightarrow>
               cosine_similarity env [q] [chunk_embeddings pool q ! c] = Inr [[rel c]] \<and>
               cosine_similarity env [chunk_embeddings pool q ! c] [chunk_embeddings pool q ! 0]
                 = Inr [[sim c]] \<and>
               \<bar>rel c\<bar> \<le> 2 \<and> \<bar>sim c\<bar> \<le> 2"
    and dup: "\<forall>c. 0 < c \<and> c < length pool \<and> c \<noteq> d \<longrightarrow>
               sim c > 95 / 100 \<and>
               7 / 10 * (rel c - rel d) + 1 / 10 ^ 14 \<le> 3 / 10 * (95 / 100 - sim d)"
  shows "\<exists>others. apply_mmr_reranking env pool q limit (b64 (7 / 10)) = Inr (pool ! 0 # pool ! d # others)"
proof -
  define vs where "vs = chunk_embeddings pool q"
  note dims' = dims [folded vs_def] and vals' = vals [folded vs_def]
  let ?n = "length pool"
  let ?remaining = "remove1 0 [0 ..< ?n]"
  have len_vs: "length vs = ?n"
    by (simp add: vs_def chunk_embeddings_def)
  have n2: "2 < ?n"
    using big lim2 by linarith
  have "[0 ..< ?n] = 0 # [1 ..< ?n]"
    using n2 by (subst upt_rec) auto
  then have remaining: "?remaining = [1 ..< ?n]"
    by simp
  have vs_len: "\<And>i. i < ?n \<Longrightarrow> length (vs ! i) = length q"
    using dims' len_vs by (metis nth_mem)
  have not_ragged: "\<not> (\<exists>v \<in> set vs. length v \<noteq> length (hd vs))"
  proof -
    have "hd vs \<in> set vs"
      using len_vs n2 by (cases vs) auto
    then show ?thesis
      using dims' by auto
  qed
  let ?score = "\<lambda>c. fsub (fmul (b64 (7 / 10)) (rel c)) (fmul (fsub 1 (b64 (7 / 10))) (sim c))"
  let ?scores = "map (\<lambda>c. (c, ?score c)) [1 ..< ?n]"
  have scores: "mmr_scores env q vs (b64 (7 / 10)) [0] [1 ..< ?n] = Inr ?scores"
    using vals' by (intro mmr_scores_first) auto
  have best: "py_max_by snd ?scores = (d, ?score d)"
  proof (rule py_max_by_unique)
    show "(d, ?score d) \<in> set ?scores"
      using d by auto
  next
    show "\<forall>y \<in> set ?scores. y \<noteq> (d, ?score d) \<longrightarrow> snd y < snd (d, ?score d)"
    proof (intro ballI impI)
      fix y assume y: "y \<in> set ?scores" and ne: "y \<noteq> (d, ?score d)"
      then obtain c where c: "y = (c, ?score c)" "1 \<le> c" "c < ?n"
        by auto
      with ne have cd: "c \<noteq> d" by auto
      have bounds: "\<bar>rel c\<bar> \<le> 2" "\<bar>sim c\<bar> \<le> 2" "\<bar>rel d\<bar> \<le> 2" "\<bar>sim d\<bar> \<le> 2"
        using vals c d by auto
      have "sim c > 95 / 100"
        and "7 / 10 * (rel c - rel d) + 1 / 10 ^ 14 \<le> 3 / 10 * (95 / 100 - sim d)"
        using dup c cd by auto
      then have "7 / 10 * (rel c - rel d) + 1 / 10 ^ 14 \<le> 3 / 10 * (sim c - sim d)"
        by simp
      then have "?score c < ?score d"
        using bounds by (intro mmr_score_margin)
      with c show "snd y < snd (d, ?score d)"
        by simp
    qed
  qed
  have "0 < ?n"
    using n2 by arith
  then have sel_ok: "\<forall>s \<in> set ([0] @ [d]). length (vs ! s) = length q"
    using vs_len [of 0] vs_len [of d] d by simp
  have rest_ok: "\<forall>i \<in> set (remove1 d [1 ..< ?n]). length (vs ! i) = length q"
    using vs_len set_remove1_subset [of d "[1 ..< ?n]"] by auto
  obtain others where others:
    "mmr_loop env q vs limit (b64 (7 / 10)) ([0] @ [d]) (remove1 d [1 ..< ?n]) = Inr (([0] @ [d]) @ others)"
    using mmr_loop_extends [OF lib sel_ok rest_ok] by blast
  have "1 < ?n"
    using n2 by arith
  then have nonempty: "[1 ..< ?n] \<noteq> []"
    unfolding upt_eq_Nil_conv by arith
  have loop: "mmr_loop env q vs limit (b64 (7 / 10)) [0] [1 ..< ?n] = Inr (0 # d # others)"
    using lim2 nonempty scores best others by (subst mmr_loop.simps) (simp add: Let_def)
  have "pool \<noteq> []"
    using n2 by auto
  then show ?thesis
    using big not_ragged loop remaining
    by (simp add: apply_mmr_reranking_def Let_def vs_def [symmetric])
qed

lemma example_library_returns:
  "\<forall>xs ys. xs \<noteq> [] \<and> ys \<noteq> [] \<and>
      (\<forall>x \<in> set xs. length x = length [4, 3 :: rat]) \<and> (\<forall>y \<in> set ys. length y = length [4, 3 :: rat]) \<longrightarrow>
    (\<exists>k. cosine_similarity example_rag_env xs ys = Inr k \<and> length k = length xs \<and>
         (\<forall>row \<in> set k. length row = length ys))"
proof (intro allI impI)
  fix xs ys :: "rat list list"
  assume h: "xs \<noteq> [] \<and> ys \<noteq> [] \<and>
      (\<forall>x \<in> set xs. length x = length [4, 3 :: rat]) \<and> (\<forall>y \<in> set ys. length y = length [4, 3 :: rat])"
  then have "hd xs \<in> set xs"
    by simp
  with h have hd: "length (hd xs) = 2"
    by simp
  then have "hd xs \<noteq> []"
    by auto
  moreover have "\<not> (\<exists>r \<in> set (xs @ ys). length r \<noteq> length (hd xs))"
    using h hd by auto
  ultimately have "example_cosine_similarity xs ys = Inr (map (\<lambda>x. map (\<lambda>y. example_cosine x y) ys) xs)"
    using h by (simp add: example_cosine_similarity_def)
  then show "\<exists>k. cosine_similarity example_rag_env xs ys = Inr k \<and> length k = length xs \<and>
         (\<forall>row \<in> set k. length row = length ys)"
    by (simp add: example_rag_env_def)
qed

lemma example_cosine_values:
  "example_cosine [1, 0] [1, 0] = 1"
  "example_cosine [1, 0] [4, 3] = b64 (4 / 5)"
  "example_cosine [4, 3] [1, 0] = b64 (4 / 5)"
  "example_cosine [4, 3] [0, 1] = b64 (3 / 5)"
  "example_cosine [0, 1] [1, 0] = 0"
  by code_simp+

lemma example_cosines:
  "example_cosine_similarity [[1, 0]] [[1, 0]] = Inr [[1]]"
  "example_cosine_similarity [[1, 0]] [[4, 3]] = Inr [[b64 (4 / 5)]]"
  "example_cosine_similarity [[4, 3]] [[1, 0]] = Inr [[b64 (4 / 5)]]"
  "example_cosine_similarity [[4, 3]] [[0, 1]] = Inr [[b64 (3 / 5)]]"
  "example_cosine_similarity [[0, 1]] [[1, 0]] = Inr [[0]]"
  "example_cosine_similarity [[1, 0]] [[1, 0], [1, 0]] = Inr [[1, 1]]"
  "example_cosine_similarity [[4, 3]] [[1, 0], [1, 0]] = Inr [[b64 (4 / 5), b64 (4 / 5)]]"
  by (simp_all add: example_cosine_similarity_def example_cosine_values)

lemma example_scores:
  "fsub (fmul (b64 (7 / 10)) 1) (fmul (fsub 1 (b64 (7 / 10))) 1) = 900719925474099 / 2251799813685248"
  "fsub (fmul (b64 (7 / 10)) (b64 (4 / 5))) (fmul (fsub 1 (b64 (7 / 10))) (b64 (4 / 5)))
     = 5764607523034233 / 18014398509481984"
  "\<not> b64 (4 / 5) > 95 / 100"
  by code_simp+

text \<open>
  C3 as stated fails when the near-duplicates are much more relevant than the distinct
  chunk.  Three chunks with the embedding of the query and one chunk at cosine 0.8 from
  it, with a limit of 3: the first chunk is selected, the score of each other duplicate
  is \<open>0.7 - 0.3\<close>, about 0.4, that of the distinct chunk \<open>0.56 - 0.24\<close>, about 0.32, and
  the three duplicates are selected.  On these vectors every sum and every square root
  of the similarity is exact, whatever the order of the additions.
\<close>

theorem mmr_duplicates_counterexample:
  "int (length example_pool) > 3 \<and>
   example_cosine_similarity [[1, 0]] [[1, 0]] = Inr [[1]] \<and> (1 :: rat) > 95 / 100 \<and>
   example_cosine_similarity [[4, 3]] [[1, 0]] = Inr [[b64 (4 / 5)]] \<and> \<not> b64 (4 / 5) > 95 / 100 \<and>
   apply_mmr_reranking example_rag_env example_pool [1, 0] 3 (b64 (7 / 10))
     = Inr [(example_embedded_chunk ''dup-1'' [1, 0], 1),
            (example_embedded_chunk ''dup-2'' [1, 0], 1),
            (example_embedded_chunk ''dup-3'' [1, 0], 1)]"
proof -
  have lib: "cosine_similarity example_rag_env = example_cosine_similarity"
    by (simp add: example_rag_env_def)
  have selected: "apply_mmr_reranking example_rag_env example_pool [1, 0] 3 (b64 (7 / 10))
     = Inr [(example_embedded_chunk ''dup-1'' [1, 0], 1),
            (example_embedded_chunk ''dup-2'' [1, 0], 1),
            (example_embedded_chunk ''dup-3'' [1, 0], 1)]"
    by (simp add: lib example_cosines example_scores example_pool_def apply_mmr_reranking_def
          chunk_embeddings_def example_embedded_chunk_def mmr_loop.simps mmr_score_def
          py_first_def py_max_by_def)
  have larger: "int (length example_pool) > 3"
    by (simp add: example_pool_def)
  have near: "(1 :: rat) > 95 / 100"
    by simp
  from larger example_cosines(1) near example_cosines(3) example_scores(3) selected
  show ?thesis
    by blast
qed

theorem mmr_selects_distinct_chunk_witness:
  "\<exists>others. apply_mmr_reranking example_rag_env example_pool_distinct [4, 3] 2 (b64 (7 / 10))
      = Inr ((example_embedded_chunk ''dup-1'' [1, 0], b64 (4 / 5))
             # (example_embedded_chunk ''distinct'' [0, 1], b64 (3 / 5)) # others)"
proof -
  define rel :: "nat \<Rightarrow> rat" where "rel = (\<lambda>c. if c = 3 then b64 (3 / 5) else b64 (4 / 5))"
  define sim :: "nat \<Rightarrow> rat" where "sim = (\<lambda>c. if c = 3 then 0 else 1)"
  have vs: "chunk_embeddings example_pool_distinct [4, 3] = [[1, 0], [1, 0], [1, 0], [0, 1]]"
    by (simp add: chunk_embeddings_def example_pool_distinct_def example_embedded_chunk_def)
  have len: "length example_pool_distinct = 4"
    by (simp add: example_pool_distinct_def)
  have lib: "cosine_similarity example_rag_env = example_cosine_similarity"
    by (simp add: example_rag_env_def)
  have small: "\<bar>b64 (3 / 5)\<bar> \<le> 2" "\<bar>b64 (4 / 5)\<bar> \<le> 2"
    "7 / 10 * (b64 (4 / 5) - b64 (3 / 5)) + 1 / 10 ^ 14 \<le> 3 / 10 * (95 / 100 - 0)"
    by code_simp+
  have cases: "\<And>c :: nat. 0 < c \<and> c < 4 \<Longrightarrow> c = 1 \<or> c = 2 \<or> c = 3"
    by arith
  have vals: "\<forall>c. 0 < c \<and> c < length example_pool_distinct \<longrightarrow>
      cosine_similarity example_rag_env [[4, 3]] [chunk_embeddings example_pool_distinct [4, 3] ! c]
        = Inr [[rel c]] \<and>
      cosine_similarity example_rag_env [chunk_embeddings example_pool_distinct [4, 3] ! c]
          [chunk_embeddings example_pool_distinct [4, 3] ! 0] = Inr [[sim c]] \<and>
      \<bar>rel c\<bar> \<le> 2 \<and> \<bar>sim c\<bar> \<le> 2"
  proof (intro allI impI)
    fix c :: nat
    assume "0 < c \<and> c < length example_pool_distinct"
    then have "c = 1 \<or> c = 2 \<or> c = 3"
      unfolding len by (rule cases)
    then show "cosine_similarity example_rag_env [[4, 3]] [chunk_embeddings example_pool_distinct [4, 3] ! c]
        = Inr [[rel c]] \<and>
      cosine_similarity example_rag_env [chunk_embeddings example_pool_distinct [4, 3] ! c]
          [chunk_embeddings example_pool_distinct [4, 3] ! 0] = Inr [[sim c]] \<and>
      \<bar>rel c\<bar> \<le> 2 \<and> \<bar>sim c\<bar> \<le> 2"
      unfolding vs lib using small by (auto simp: example_cosines rel_def sim_def)
  qed
  have dup: "\<forall>c. 0 < c \<and> c < length example_pool_distinct \<and> c \<noteq> 3 \<longrightarrow>
      sim c > 95 / 100 \<and> 7 / 10 * (rel c - rel 3) + 1 / 10 ^ 14 \<le> 3 / 10 * (95 / 100 - sim 3)"
    using small(3) by (simp add: rel_def sim_def)
  have dims: "\<forall>v \<in> set (chunk_embeddings example_pool_distinct [4, 3]). length v = length [4, 3 :: rat]"
    unfolding vs by simp
  have "\<exists>others. apply_mmr_reranking example_rag_env example_pool_distinct [4, 3] 2 (b64 (7 / 10))
      = Inr (example_pool_distinct ! 0 # example_pool_distinct ! 3 # others)"
    using mmr_selects_distinct_chunk
      [of 2 example_pool_distinct "[4, 3]" example_rag_env 3 rel sim,
       OF _ _ dims example_library_returns _ _ vals dup]
    by (simp add: len)
  then show ?thesis
    by (simp add: example_pool_distinct_def)
qed

section \<open>Properties of the compliance analysis\<close>

text \<open>
  C7 fails in binary64 arithmetic.  The rule with the pattern \<^verbatim>\<open>indemnify\<close> is evaluated on a
  text that contains the phrase \<^verbatim>\<open>shall indemnify and hold harmless\<close> and, further down,
  a second \<^verbatim>\<open>indemnify\<close> with no legal keyword within a hundred characters.  The first
  match has the confidence 0.9199999999999999.  The second has base 0.7 plus 0.2 and no
  keyword boost, which is 0.8999999999999999 and below the literal 0.9; its risk level is
  MEDIUM.  The status of the rule is COMPLIANT and its risk score 0, as the claim says.
\<close>

theorem exact_match_confidence_below_threshold:
  "py_in ''shall indemnify and hold harmless'' example_indemnity_text \<and>
   evaluate_rule no_other_patterns example_indemnity_rule example_indemnity_text
       [example_text_chunk example_indemnity_text] ''org1''
     = Inr \<lparr>rule_id = ''indemnity_clause'', rule_name = ''Indemnity Clause'',
            status = COMPLIANT,
            matched_clauses =
              [\<lparr>ClauseMatch.clause_type = ''indemnity'',
                text' = ''The supplier shall indemnify and hold harmless the customer. '' @
                        ''Invoices are payable within thirty days of receipt, and late amount'',
                confidence = 517913957147607 / 562949953421312, page = 1,
                risk_level = LOW, matched_rule = Some ''indemnity_clause''\<rparr>,
               \<lparr>ClauseMatch.clause_type = ''indemnity'',
                text' = ''hirty days of receipt, and late amounts bear interest at the statutory rate. '' @
                        ''The customer will also indemnify the supplier.'',
                confidence = 2026619832316723 / 2251799813685248, page = 1,
                risk_level = MEDIUM, matched_rule = Some ''indemnity_clause''\<rparr>],
            missing_clause = False, risk_score = 0, recommendations = []\<rparr> \<and>
   (2026619832316723 / 2251799813685248 :: rat) = fadd (b64 (7 / 10)) (b64 (2 / 10)) \<and>
   (2026619832316723 / 2251799813685248 :: rat) < b64 (9 / 10)"
  by code_simp

lemma find_pattern_matches_none:
  assumes "re_compile ro p = Inr regex"
    and "\<forall>c \<in> set cs. finditer regex (DocumentChunk.text' c) = []"
  shows "find_pattern_matches ro p document_text cs = Inr []"
  using assms by (simp add: find_pattern_matches_def)

lemma collect_matches_none:
  assumes "\<forall>p \<in> set ps. \<exists>regex. re_compile ro p = Inr regex \<and>
             (\<forall>c \<in> set cs. finditer regex (DocumentChunk.text' c) = [])"
  shows "collect_matches ro rule document_text cs ps = Inr []"
  using assms
proof (induction ps)
  case Nil
  then show ?case by simp
next
  case (Cons p ps)
  then obtain regex where "re_compile ro p = Inr regex"
    and "\<forall>c \<in> set cs. finditer regex (DocumentChunk.text' c) = []"
    by auto
  then have "find_pattern_matches ro p document_text cs = Inr []"
    by (rule find_pattern_matches_none)
  moreover have "collect_matches ro rule document_text cs ps = Inr []"
    using Cons by simp
  ultimately show ?case by simp
qed

text \<open>
  C1 (as the code has it).  The patterns are searched in each chunk, not in the joined
  text of the document, which \<^verbatim>\<open>_find_pattern_matches\<close> receives and does not read.  A
  required rule none of whose patterns finds a match in any chunk (each pattern is
  accepted by the regular expression engine and its search comes back empty) is
  evaluated to the status NON_COMPLIANT with \<open>missing_clause = True\<close>, no matched clause,
  and a risk score of the rule's risk weight times 100.
\<close>

theorem required_rule_without_match:
  assumes "required rule"
    and "\<forall>p \<in> set (patterns rule). \<exists>regex. re_compile ro p = Inr regex \<and>
           (\<forall>c \<in> set cs. finditer regex (DocumentChunk.text' c) = [])"
  shows "evaluate_rule ro rule document_text cs org
           = Inr \<lparr>rule_id = ComplianceRule.id rule, rule_name = name rule,
                  status = NON_COMPLIANT, matched_clauses = [], missing_clause = True,
                  risk_score = fmul (risk_weight rule) 100,
                  recommendations = ComplianceRule.recommendations rule\<rparr>"
  using assms(1) collect_matches_none [OF assms(2)]
  by (simp add: evaluate_rule_def)

theorem required_rule_without_match_witness:
  "evaluate_rule no_other_patterns example_indemnity_rule example_delivery_text
       [example_text_chunk example_delivery_text] ''org1''
     = Inr \<lparr>rule_id = ''indemnity_clause'', rule_name = ''Indemnity Clause'',
            status = NON_COMPLIANT, matched_clauses = [], missing_clause = True,
            risk_score = 90,
            recommendations = [JStr ''Add mutual indemnity clause to protect both parties'']\<rparr>"
proof -
  have req: "required example_indemnity_rule"
    by (simp add: example_indemnity_rule_def)
  have "re_parse False True ''indemnify'' = Parsed (map (\<lambda>c. (Lit c, False)) ''indemnify'')"
    by code_simp
  then have "re_compile no_other_patterns ''indemnify''
          = Inr (Fragment (map (\<lambda>c. (Lit c, False)) ''indemnify''))"
    by (simp add: re_compile_def)
  moreover have "finditer_from (map (\<lambda>c. (Lit c, False)) ''indemnify'') 0 example_delivery_text = []"
    by code_simp
  then have "finditer (Fragment (map (\<lambda>c. (Lit c, False)) ''indemnify'')) example_delivery_text = []"
    by (simp add: finditer_def)
  ultimately have none: "\<forall>p \<in> set (patterns example_indemnity_rule).
      \<exists>regex. re_compile no_other_patterns p = Inr regex \<and>
        (\<forall>c \<in> set [example_text_chunk example_delivery_text]. finditer regex (DocumentChunk.text' c) = [])"
    by (simp add: example_indemnity_rule_def example_text_chunk_def)
  have weight: "fmul (risk_weight example_indemnity_rule) 100 = 90"
    by code_simp
  show ?thesis
    using required_rule_without_match [OF req none, of example_delivery_text "''org1''"] weight
    by (simp add: example_indemnity_rule_def)
qed

text \<open>
  C1 as stated, for a document text without a match, fails.  The required rule has the
  pattern \<^verbatim>\<open>harmless$\<close> and the document the chunks \<^verbatim>\<open>We hold harmless\<close> and
  \<^verbatim>\<open>and more\<close>.  The text of the document, joined as \<^verbatim>\<open>analyze_document\<close> joins it, is
  \<^verbatim>\<open>We hold harmless and more\<close>, in which the pattern has no match.  It has one at the
  end of the first chunk, with the confidence 0.7, and the rule is evaluated to
  REVIEW_REQUIRED with \<open>missing_clause = False\<close> and the risk score 27.
\<close>

theorem required_rule_chunk_match_counterexample:
  "required example_harmless_rule \<and>
   py_join '' '' (map DocumentChunk.text' example_harmless_chunks) = ''We hold harmless and more'' \<and>
   re_parse False True ''harmless$''
     = Parsed (map (\<lambda>c. (Lit c, False)) ''harmless'' @ [(AtEnd, False)]) \<and>
   finditer (Fragment (map (\<lambda>c. (Lit c, False)) ''harmless'' @ [(AtEnd, False)]))
     ''We hold harmless and more'' = [] \<and>
   finditer (Fragment (map (\<lambda>c. (Lit c, False)) ''harmless'' @ [(AtEnd, False)]))
     ''We hold harmless'' = [(8, 16)] \<and>
   evaluate_rule no_other_patterns example_harmless_rule
       (py_join '' '' (map DocumentChunk.text' example_harmless_chunks)) example_harmless_chunks ''org1''
     = Inr \<lparr>rule_id = ''hold_harmless'', rule_name = ''Hold Harmless'',
            status = REVIEW_REQUIRED,
            matched_clauses =
              [\<lparr>ClauseMatch.clause_type = ''indemnity'', text' = ''We hold harmless'',
                confidence = b64 (7 / 10), page = 1, risk_level = MEDIUM,
                matched_rule = Some ''hold_harmless''\<rparr>],
            missing_clause = False, risk_score = 27, recommendations = []\<rparr>"
  by code_simp




















lemma round_half_even_nonneg: "0 \<le> x \<Longrightarrow> 0 \<le> round_half_even x"
proof -
  assume "0 \<le> x"
  then have "0 \<le> \<lfloor>x\<rfloor>" by simp
  then show ?thesis
    by (auto simp: round_half_even_def Let_def)
qed

lemma b64_nonneg: "0 \<le> x \<Longrightarrow> 0 \<le> b64 x"
proof -
  assume x: "0 \<le> x"
  have "\<And>u :: rat. 0 < u \<Longrightarrow> 0 \<le> of_int (round_half_even (x / u)) * u"
  proof -
    fix u :: rat assume u: "0 < u"
    with x have "0 \<le> x / u" by simp
    then have "0 \<le> round_half_even (x / u)" by (rule round_half_even_nonneg)
    with u show "0 \<le> of_int (round_half_even (x / u)) * u" by simp
  qed
  then show ?thesis
    by (simp add: b64_def Let_def pow2_pos)
qed

lemma foldl_fadd_nonneg:
  "0 \<le> acc \<Longrightarrow> \<forall>x \<in> set xs. 0 \<le> x \<Longrightarrow> 0 \<le> foldl fadd acc xs"
proof (induction xs arbitrary: acc)
  case Nil
  then show ?case by simp
next
  case (Cons x xs)
  then have "0 \<le> fadd acc x"
    by (simp add: fadd_def b64_nonneg)
  with Cons show ?case by simp
qed

lemma py_sum_nonneg: "\<forall>x \<in> set xs. 0 \<le> x \<Longrightarrow> 0 \<le> py_sum xs"
  by (simp add: py_sum_def foldl_fadd_nonneg)

lemma py_int_nonneg: "0 \<le> x \<Longrightarrow> 0 \<le> py_int x"
  by (simp add: py_int_def)

text \<open>
  C2 (as the code has it).  For a list of results that is not empty the overall risk
  score is the sum of the risk scores divided by a hundred times the number of rules and
  multiplied by 100, in binary64 arithmetic, cut to an integer towards zero (not rounded)
  and capped at 100.  When no risk score is negative it lies between 0 and 100.  For a
  single rule whose risk score is the weight 0.9 times 100, it is 90, and the category
  of 90 is \<^verbatim>\<open>Critical\<close>.
\<close>

theorem overall_risk_score_truncates:
  "(results \<noteq> [] \<longrightarrow>
      calculate_overall_risk_score results
        = min 100 (py_int (fmul (fdiv (py_sum (map risk_score results))
                                      (b64 (of_int (int (length results) * 100)))) 100))) \<and>
   ((\<forall>r \<in> set results. 0 \<le> risk_score r) \<longrightarrow>
      0 \<le> calculate_overall_risk_score results \<and> calculate_overall_risk_score results \<le> 100) \<and>
   (risk_score r = fmul (b64 (9 / 10)) 100 \<longrightarrow>
      calculate_overall_risk_score [r] = 90 \<and>
      get_risk_category (calculate_overall_risk_score [r]) = ''Critical'')"
proof (intro conjI impI)
  assume "results \<noteq> []"
  then have "0 < int (length results) * 100"
    by simp
  then show "calculate_overall_risk_score results
        = min 100 (py_int (fmul (fdiv (py_sum (map risk_score results))
                                      (b64 (of_int (int (length results) * 100)))) 100))"
    using \<open>results \<noteq> []\<close> by (simp add: calculate_overall_risk_score_def Let_def)
next
  assume nonneg: "\<forall>r \<in> set results. 0 \<le> risk_score r"
  have total: "0 \<le> py_sum (map risk_score results)"
    using nonneg by (intro py_sum_nonneg) auto
  have "0 \<le> b64 (of_int (int (length results) * 100))"
    by (intro b64_nonneg) simp
  with total have "0 \<le> fdiv (py_sum (map risk_score results)) (b64 (of_int (int (length results) * 100)))"
    unfolding fdiv_def by (intro b64_nonneg) simp
  then have "0 \<le> fmul (fdiv (py_sum (map risk_score results))
                               (b64 (of_int (int (length results) * 100)))) 100"
    unfolding fmul_def by (intro b64_nonneg) simp
  then have "0 \<le> py_int (fmul (fdiv (py_sum (map risk_score results))
                               (b64 (of_int (int (length results) * 100)))) 100)"
    by (rule py_int_nonneg)
  then show "0 \<le> calculate_overall_risk_score results"
    by (simp add: calculate_overall_risk_score_def Let_def)
next
  show "calculate_overall_risk_score results \<le> 100"
    by (simp add: calculate_overall_risk_score_def Let_def)
next
  assume r: "risk_score r = fmul (b64 (9 / 10)) 100"
  have ninety: "min 100 (py_int (fmul (fdiv (py_sum [fmul (b64 (9 / 10)) 100]) (b64 (of_int (1 * 100)))) 100)) = 90"
    by code_simp
  then show score: "calculate_overall_risk_score [r] = 90"
    using r by (simp add: calculate_overall_risk_score_def Let_def)
  have "get_risk_category 90 = ''Critical''"
    by (simp add: get_risk_category_def)
  with score show "get_risk_category (calculate_overall_risk_score [r]) = ''Critical''"
    by simp
qed

theorem overall_risk_score_truncates_witness:
  "calculate_overall_risk_score [example_result_with_risk NON_COMPLIANT True 90] = 90 \<and>
   get_risk_category (calculate_overall_risk_score [example_result_with_risk NON_COMPLIANT True 90])
     = ''Critical'' \<and>
   0 \<le> calculate_overall_risk_score
          [example_result_with_risk NON_COMPLIANT True 100, example_result_with_risk COMPLIANT False 0] \<and>
   calculate_overall_risk_score
          [example_result_with_risk NON_COMPLIANT True 100, example_result_with_risk COMPLIANT False 0] \<le> 100"
proof -
  have w: "risk_score (example_result_with_risk NON_COMPLIANT True 90) = fmul (b64 (9 / 10)) 100"
  proof -
    have "fmul (b64 (9 / 10)) 100 = 90" by code_simp
    then show ?thesis by (simp add: example_result_with_risk_def)
  qed
  have nonneg: "\<forall>r \<in> set [example_result_with_risk NON_COMPLIANT True 100,
                              example_result_with_risk COMPLIANT False 0]. 0 \<le> risk_score r"
    by (simp add: example_result_with_risk_def)
  note inst = overall_risk_score_truncates
        [of "[example_result_with_risk NON_COMPLIANT True 100, example_result_with_risk COMPLIANT False 0]"
            "example_result_with_risk NON_COMPLIANT True 90"]
  from inst w have single: "calculate_overall_risk_score [example_result_with_risk NON_COMPLIANT True 90] = 90"
    "get_risk_category (calculate_overall_risk_score [example_result_with_risk NON_COMPLIANT True 90])
       = ''Critical''"
    by blast+
  from inst nonneg have bounds:
    "0 \<le> calculate_overall_risk_score
          [example_result_with_risk NON_COMPLIANT True 100, example_result_with_risk COMPLIANT False 0]"
    "calculate_overall_risk_score
          [example_result_with_risk NON_COMPLIANT True 100, example_result_with_risk COMPLIANT False 0] \<le> 100"
    by blast+
  from single bounds show ?thesis
    by blast
qed

text \<open>
  C2 as stated fails where the quotient has a fraction of a half or more: three rules
  with the risk scores 100, 100 and 0 give 66.66666666666666, which the code cuts to 66,
  while rounding gives 67.
\<close>

theorem overall_risk_score_rounding_counterexample:
  "calculate_overall_risk_score
     [example_result_with_risk NON_COMPLIANT True 100,
      example_result_with_risk NON_COMPLIANT True 100,
      example_result_with_risk COMPLIANT False 0] = 66 \<and>
   round (100 * (100 + 100 + 0) / (100 * 3) :: rat) = 67"
  by code_simp

lemma evaluate_rules_abort:
  assumes "\<forall>r \<in> set pre. \<not> isl (evaluate_rule ro r dt cs org)"
    and "evaluate_rule ro rule dt cs org = Inl e"
  shows "evaluate_rules ro (pre @ rule # post) dt cs org = Inl e"
  using assms(1)
proof (induction pre)
  case Nil
  show ?case using assms(2) by simp
next
  case (Cons r pre)
  then obtain res where "evaluate_rule ro r dt cs org = Inr res"
    by (cases "evaluate_rule ro r dt cs org") auto
  moreover have "evaluate_rules ro (pre @ rule # post) dt cs org = Inl e"
    using Cons by simp
  ultimately show ?case by simp
qed

text \<open>
  C6 (as the code has it).  The document and the playbook are found, the playbook passes
  the validation, and its rules are \<open>pre @ rule # post\<close>.  When the rules of \<open>pre\<close>
  are evaluated without error and the evaluation of \<open>rule\<close> raises \<open>e\<close>, the analysis
  raises \<open>e\<close>: there is no result for any rule, and the rules of \<open>post\<close> are not
  evaluated.
\<close>

theorem rule_error_aborts_analysis:
  assumes "get_document env doc_id org = Some doc"
    and "(case pb_id of Some p \<Rightarrow> get_playbook env p org | None \<Rightarrow> get_default_playbook env org)
           = Some playbook"
    and "validate_playbook_schema (rules_json playbook) = Inr (True, errs)"
    and "parse_playbook_rules (rules_json playbook) = Inr (pre @ rule # post)"
    and "\<forall>r \<in> set pre.
           \<not> isl (evaluate_rule (re_other env) r
                    (py_join '' '' (map DocumentChunk.text' (get_chunks_by_document env doc_id org)))
                    (get_chunks_by_document env doc_id org) org)"
    and "evaluate_rule (re_other env) rule
           (py_join '' '' (map DocumentChunk.text' (get_chunks_by_document env doc_id org)))
           (get_chunks_by_document env doc_id org) org = Inl e"
  shows "analyze_document env doc_id org pb_id = Inl e"
proof -
  have "evaluate_rules (re_other env) (pre @ rule # post)
          (py_join '' '' (map DocumentChunk.text' (get_chunks_by_document env doc_id org)))
          (get_chunks_by_document env doc_id org) org = Inl e"
    using assms(5,6) by (rule evaluate_rules_abort)
  then show ?thesis
    using assms(1-4) by (simp add: analyze_document_def Let_def)
qed

text \<open>
  C6 as stated fails for a playbook that passes the validation and whose second rule has
  the pattern \<^verbatim>\<open>*liability*\<close>, which \<^verbatim>\<open>re.compile\<close> rejects.  The first rule is evaluated
  without error, and the analysis of the document ends with the error of the second:
  no analysis is returned in which that rule is REVIEW_REQUIRED.
\<close>

theorem invalid_pattern_aborts_counterexample:
  "validate_playbook_schema (rules_json example_glob_playbook) = Inr (True, []) \<and>
   \<not> isl (evaluate_rule no_other_patterns example_indemnity_rule example_lower_text
            [example_text_chunk example_lower_text] ''org1'') \<and>
   analyze_document example_compliance_env ''doc-a'' ''org1'' None = Inl ReError"
  by code_simp

theorem rule_error_aborts_analysis_witness:
  "parse_playbook_rules (rules_json example_glob_playbook)
     = Inr ([example_indemnity_rule] @ example_liability_rule # [example_termination_rule]) \<and>
   \<not> isl (evaluate_rule no_other_patterns example_indemnity_rule example_lower_text
            [example_text_chunk example_lower_text] ''org1'') \<and>
   evaluate_rule no_other_patterns example_liability_rule example_lower_text
       [example_text_chunk example_lower_text] ''org1'' = Inl ReError \<and>
   analyze_document example_compliance_env ''doc-a'' ''org1'' None = Inl ReError"
proof -
  have doc: "get_document example_compliance_env ''doc-a'' ''org1''
               = Some \<lparr>Document.id = ''doc-a'', org_id = ''org1'', title = ''Contract A'', chunks = []\<rparr>"
    by (simp add: example_compliance_env_def)
  have pb: "(case None of Some p \<Rightarrow> get_playbook example_compliance_env p ''org1''
             | None \<Rightarrow> get_default_playbook example_compliance_env ''org1'') = Some example_glob_playbook"
    by (simp add: example_compliance_env_def)
  have valid: "validate_playbook_schema (rules_json example_glob_playbook) = Inr (True, [])"
    by code_simp
  have parsed: "parse_playbook_rules (rules_json example_glob_playbook)
     = Inr ([example_indemnity_rule] @ example_liability_rule # [example_termination_rule])"
    by code_simp
  have cs: "get_chunks_by_document example_compliance_env ''doc-a'' ''org1''
              = [example_text_chunk example_lower_text]"
    by (simp add: example_compliance_env_def)
  have ro: "re_other example_compliance_env = no_other_patterns"
    by (simp add: example_compliance_env_def)
  have dt: "DocumentChunk.text' (example_text_chunk example_lower_text) = example_lower_text"
    by (simp add: example_text_chunk_def)
  have first: "\<not> isl (evaluate_rule no_other_patterns example_indemnity_rule example_lower_text
            [example_text_chunk example_lower_text] ''org1'')"
    by code_simp
  have second: "evaluate_rule no_other_patterns example_liability_rule example_lower_text
       [example_text_chunk example_lower_text] ''org1'' = Inl ReError"
    by code_simp
  have ok: "\<forall>r \<in> set [example_indemnity_rule].
           \<not> isl (evaluate_rule (re_other example_compliance_env) r
                    (py_join '' '' (map DocumentChunk.text'
                       (get_chunks_by_document example_compliance_env ''doc-a'' ''org1'')))
                    (get_chunks_by_document example_compliance_env ''doc-a'' ''org1'') ''org1'')"
    using first by (simp add: cs ro dt)
  have fail: "evaluate_rule (re_other example_compliance_env) example_liability_rule
           (py_join '' '' (map DocumentChunk.text'
              (get_chunks_by_document example_compliance_env ''doc-a'' ''org1'')))
           (get_chunks_by_document example_compliance_env ''doc-a'' ''org1'') ''org1'' = Inl ReError"
    using second by (simp add: cs ro dt)
  have "analyze_document example_compliance_env ''doc-a'' ''org1'' None = Inl ReError"
    using doc pb valid parsed ok fail by (rule rule_error_aborts_analysis)
  with parsed first second show ?thesis
    by blast
qed

end
